theory Spec2Isabelle
  imports Complex_Main "HOL-Library.Sublist" "HOL-Library.Log_Nat"
begin

section \<open>Python values used by the services\<close>

text \<open>
  The services under \<^verbatim>\<open>backend/services\<close> work on Python \<^verbatim>\<open>str\<close> values. A string is
  modelled as a list of characters; case conversion and whitespace are those of the ASCII
  range, characters outside it are left unchanged by \<^verbatim>\<open>lower\<close> and \<^verbatim>\<open>upper\<close>.
  Exceptions are values of \<open>error\<close>; a function that can raise returns \<open>error + 'a\<close>.
\<close>

datatype error =
    KeyError string
  | IndexError
  | AttributeError
  | ValueError
  | ZeroDivisionError
  | BackendError string

text \<open>\<^verbatim>\<open>str(e)\<close>, as used in the f-string of the fallback's handler.\<close>

fun str_of_error :: "error \<Rightarrow> string" where
  "str_of_error (KeyError k) = [CHR 0x27] @ k @ [CHR 0x27]"
| "str_of_error IndexError = ''list index out of range''"
| "str_of_error AttributeError = [CHR 0x27] @ ''NoneType'' @ [CHR 0x27] @ '' object has no attribute '' @ [CHR 0x27] @ ''strip'' @ [CHR 0x27]"
| "str_of_error ValueError = ''max() arg is an empty sequence''"
| "str_of_error ZeroDivisionError = ''division by zero''"
| "str_of_error (BackendError msg) = msg"

definition ascii_uppercase :: string where
  "ascii_uppercase = ''ABCDEFGHIJKLMNOPQRSTUVWXYZ''"

definition ascii_lowercase :: string where
  "ascii_lowercase = ''abcdefghijklmnopqrstuvwxyz''"

definition lower_char :: "char \<Rightarrow> char" where
  "lower_char c = (case map_of (zip ascii_uppercase ascii_lowercase) c of None \<Rightarrow> c | Some d \<Rightarrow> d)"

definition upper_char :: "char \<Rightarrow> char" where
  "upper_char c = (case map_of (zip ascii_lowercase ascii_uppercase) c of None \<Rightarrow> c | Some d \<Rightarrow> d)"

text \<open>\<^verbatim>\<open>s.lower()\<close>\<close>
definition str_lower :: "string \<Rightarrow> string" where
  "str_lower s = map lower_char s"

text \<open>\<^verbatim>\<open>c.isspace()\<close> on the ASCII range: tab, newline, vertical tab, form feed, carriage
  return, the four separators 0x1c..0x1f and the space.\<close>
definition is_space :: "char \<Rightarrow> bool" where
  "is_space c = (c \<in> set [CHR 0x09, CHR 0x0A, CHR 0x0B, CHR 0x0C, CHR 0x0D,
                          CHR 0x1C, CHR 0x1D, CHR 0x1E, CHR 0x1F, CHR 0x20])"

text \<open>\<^verbatim>\<open>s.strip()\<close>\<close>
definition str_strip :: "string \<Rightarrow> string" where
  "str_strip s = rev (dropWhile is_space (rev (dropWhile is_space s)))"

text \<open>\<^verbatim>\<open>s.capitalize()\<close>: first character upper-cased, the rest lower-cased.\<close>
definition str_capitalize :: "string \<Rightarrow> string" where
  "str_capitalize s = (case s of [] \<Rightarrow> [] | c # cs \<Rightarrow> upper_char c # str_lower cs)"

text \<open>\<^verbatim>\<open>p in s\<close> on strings: \<open>p\<close> occurs in \<open>s\<close> as a contiguous run.\<close>
definition str_in :: "string \<Rightarrow> string \<Rightarrow> bool" where
  "str_in p s = sublist p s"

text \<open>\<^verbatim>\<open>s.isupper()\<close>: there is a cased character and no cased character is lower-case.\<close>
definition str_isupper :: "string \<Rightarrow> bool" where
  "str_isupper s = (list_ex (\<lambda>c. c \<in> set ascii_uppercase) s \<and> list_all (\<lambda>c. c \<notin> set ascii_lowercase) s)"

text \<open>\<^verbatim>\<open>sep.join(xs)\<close>\<close>
fun str_join :: "string \<Rightarrow> string list \<Rightarrow> string" where
  "str_join sep [] = []"
| "str_join sep [x] = x"
| "str_join sep (x # y # ys) = x @ sep @ str_join sep (y # ys)"

text \<open>\<^verbatim>\<open>a / b\<close> on integers: true division, raising on a zero divisor. This is the
  exact quotient, used for the tone scores: they are quotients of small integers by 12 or
  13, and rounding them to doubles changes neither their order nor their ties.\<close>
definition truediv :: "int \<Rightarrow> int \<Rightarrow> error + rat" where
  "truediv a b = (if b = 0 then Inl ZeroDivisionError else Inr (of_int a / of_int b))"

text \<open>\<^verbatim>\<open>max(xs, key=k)\<close>: the first element whose key is maximal; raises on an empty
  sequence.\<close>
fun max_from :: "('a \<Rightarrow> rat) \<Rightarrow> 'a \<Rightarrow> 'a list \<Rightarrow> 'a" where
  "max_from k best [] = best"
| "max_from k best (x # xs) = max_from k (if k best < k x then x else best) xs"

definition py_max :: "('a \<Rightarrow> rat) \<Rightarrow> 'a list \<Rightarrow> error + 'a" where
  "py_max k xs = (case xs of [] \<Rightarrow> Inl ValueError | x # rest \<Rightarrow> Inr (max_from k x rest))"

section \<open>Python floats\<close>

text \<open>
  A Python \<^verbatim>\<open>float\<close> (and a \<^verbatim>\<open>numpy.float64\<close>) is an IEEE 754 double. A double is modelled
  by the rational number it denotes, and every arithmetic operation returns the exact
  result rounded to the nearest double, ties to even: 53 significant bits, with the
  fixed spacing of the subnormal range below \<open>2 powi (- 1022)\<close>. Overflow to infinity is
  not modelled; the matcher's numbers stay far below it.

  \<open>float_exponent x\<close> is the integer \<open>e\<close> with \<open>2 powi e \<le> x < 2 powi (e + 1)\<close> for a
  positive \<open>x\<close>, computed from the bit lengths of numerator and denominator;
  \<open>float_ulp x\<close> is the spacing of the doubles around \<open>x\<close>.
\<close>

definition float_exponent :: "rat \<Rightarrow> int" where
  "float_exponent x =
     (case quotient_of x of (a, b) \<Rightarrow>
        (let d = bitlen a - bitlen b in if 2 powi d \<le> x then d else d - 1))"

definition float_ulp :: "rat \<Rightarrow> rat" where
  "float_ulp y = 2 powi (max (float_exponent y) (- 1022) - 52)"

text \<open>Rounding to the nearest integer, a tie to the even one.\<close>

definition round_half_even :: "rat \<Rightarrow> int" where
  "round_half_even q =
     (let n = \<lfloor>q\<rfloor>; f = q - of_int n
      in if f < 1 / 2 then n else if 1 / 2 < f then n + 1 else if even n then n else n + 1)"

definition round_double :: "rat \<Rightarrow> rat" where
  "round_double x =
     (if x = 0 then 0
      else let y = \<bar>x\<bar>; u = float_ulp y
           in sgn x * (of_int (round_half_even (y / u)) * u))"

text \<open>\<^verbatim>\<open>x + y\<close> and \<^verbatim>\<open>x * y\<close> on floats.\<close>

definition fadd :: "rat \<Rightarrow> rat \<Rightarrow> rat" where
  "fadd x y = round_double (x + y)"

definition fmul :: "rat \<Rightarrow> rat \<Rightarrow> rat" where
  "fmul x y = round_double (x * y)"

text \<open>\<^verbatim>\<open>a / b\<close> on integers as a float: the quotient rounded to a double, raising on a
  zero divisor.\<close>

definition float_truediv :: "int \<Rightarrow> int \<Rightarrow> error + rat" where
  "float_truediv a b =
     (if b = 0 then Inl ZeroDivisionError else Inr (round_double (of_int a / of_int b)))"

section \<open>config.py\<close>

definition TONE_OPTIONS :: "string list" where
  "TONE_OPTIONS = [''Formal'', ''Friendly'', ''Persuasive'', ''Apologetic'', ''Assertive'']"

section \<open>services/tone_adapter.py\<close>

record tone_characteristics =
  words :: "string list"
  phrases :: "string list"
  avoid :: "string list"

definition TONE_CHARACTERISTICS :: "(string \<times> tone_characteristics) list" where
  "TONE_CHARACTERISTICS = [
    (''Formal'', \<lparr>
       words = [''respectfully'', ''kindly'', ''accordingly'', ''pursuant'', ''regarding'',
                ''furthermore'', ''nevertheless'', ''therefore''],
       phrases = [''I am writing to'', ''please be advised'', ''as per our discussion'',
                  ''thank you for your consideration'', ''at your earliest convenience''],
       avoid = [''hey'', ''yeah'', ''cool'', ''awesome'', ''thanks'', ''btw'', ''okay'']\<rparr>),
    (''Friendly'', \<lparr>
       words = [''great'', ''wonderful'', ''appreciate'', ''thanks'', ''helpful'',
                ''excited'', ''looking forward'', ''pleased''],
       phrases = [''hope you'' @ [CHR 0x27] @ ''re doing well'', ''great to hear from you'',
                  ''thanks so much'', ''looking forward to'', ''all the best''],
       avoid = [''hereby'', ''pursuant'', ''moreover'', ''thus'', ''henceforth'']\<rparr>),
    (''Persuasive'', \<lparr>
       words = [''opportunity'', ''benefit'', ''advantage'', ''valuable'', ''essential'',
                ''proven'', ''guaranteed'', ''exclusive''],
       phrases = [''you'' @ [CHR 0x27] @ ''ll be pleased to know'', ''I'' @ [CHR 0x27] @ ''m confident that'',
                  ''this will ensure'', ''consider the benefits'', ''imagine how''],
       avoid = [''maybe'', ''perhaps'', ''possibly'', ''might'', ''somewhat'']\<rparr>),
    (''Apologetic'', \<lparr>
       words = [''apologize'', ''sorr'' @ ''y'', ''regret'', ''understand'', ''inconvenience'',
                ''mistake'', ''error'', ''rectify''],
       phrases = [''I sincerely apologize'', ''please accept our apologies'',
                  ''we understand your frustration'', ''we will make this right''],
       avoid = [''but'', ''however'', ''though'', ''excuse'', ''defend'']\<rparr>),
    (''Assertive'', \<lparr>
       words = [''will'', ''must'', ''require'', ''ensure'', ''immediate'',
                ''essential'', ''crucial'', ''necessary''],
       phrases = [''I expect'', ''please ensure that'', ''it is essential'',
                  ''this requires immediate attention'', ''I need''],
       avoid = [''maybe'', ''kind of'', ''sort of'', ''hopefully'', ''if possible'']\<rparr>)]"

text \<open>
  \<^verbatim>\<open>normalize_tone\<close>: the empty string gives Formal; otherwise the stripped, capitalised
  input is returned when it is a tone option; otherwise the first option whose lower-cased
  name occurs in the lower-cased cleaned input; otherwise Formal.
\<close>

definition normalize_tone :: "string \<Rightarrow> string" where
  "normalize_tone tone =
     (if tone = [] then ''Formal''
      else let tone_clean = str_capitalize (str_strip tone) in
        if tone_clean \<in> set TONE_OPTIONS then tone_clean
        else let tone_lower = str_lower tone_clean in
          (case find (\<lambda>valid_tone. str_in (str_lower valid_tone) tone_lower) TONE_OPTIONS of
             Some valid_tone \<Rightarrow> valid_tone
           | None \<Rightarrow> ''Formal''))"

text \<open>
  The three marker loops of \<^verbatim>\<open>analyze_tone\<close>: each adds \<open>step\<close> to the score for every
  marker whose lower-cased form occurs in the lower-cased text.
\<close>

fun add_markers :: "int \<Rightarrow> string list \<Rightarrow> string \<Rightarrow> int \<Rightarrow> int" where
  "add_markers step [] text_lower score = score"
| "add_markers step (m # ms) text_lower score =
     add_markers step ms text_lower (if str_in (str_lower m) text_lower then score + step else score)"

text \<open>The body of the loop over the catalog: one tone's normalised score.\<close>

definition tone_score :: "tone_characteristics \<Rightarrow> string \<Rightarrow> error + rat" where
  "tone_score chars text_lower =
     (let total_markers = int (length (words chars)) + int (length (phrases chars));
          score = add_markers 1 (words chars) text_lower 0;
          score = add_markers 2 (phrases chars) text_lower score;
          score = add_markers (- 1) (avoid chars) text_lower score
      in truediv score total_markers)"

fun tone_scores :: "(string \<times> tone_characteristics) list \<Rightarrow> string \<Rightarrow> error + (string \<times> rat) list" where
  "tone_scores [] text_lower = Inr []"
| "tone_scores ((tone, chars) # rest) text_lower =
     (case tone_score chars text_lower of
        Inl e \<Rightarrow> Inl e
      | Inr sc \<Rightarrow> (case tone_scores rest text_lower of
                    Inl e \<Rightarrow> Inl e
                  | Inr scores \<Rightarrow> Inr ((tone, sc) # scores)))"

definition analyze_tone :: "string \<Rightarrow> error + (string \<times> rat)" where
  "analyze_tone text =
     (let text_lower = str_lower text in
      case tone_scores TONE_CHARACTERISTICS text_lower of
        Inl e \<Rightarrow> Inl e
      | Inr scores \<Rightarrow>
          (case py_max snd scores of
             Inl e \<Rightarrow> Inl e
           | Inr detected_tone \<Rightarrow> Inr (fst detected_tone, min 1 (snd detected_tone))))"

section \<open>services/generator.py\<close>

text \<open>
  The two text-generation backends are external: \<open>openai_create\<close> stands for
  \<^verbatim>\<open>openai.ChatCompletion.create\<close> applied to the user prompt and returns the content of
  each choice's message (\<open>None\<close> for a message without content) or raises;
  \<open>hf_generator\<close> stands for the Hugging Face pipeline and returns a list of dictionaries
  or raises. \<open>HF_MODEL\<close> is \<^verbatim>\<open>config.HF_MODEL\<close>, read from the environment.
\<close>

record backends =
  openai_create :: "string \<Rightarrow> error + string option list"
  hf_generator :: "string \<Rightarrow> error + (string \<times> string) list list"
  HF_MODEL :: string

text \<open>
  The state the generator touches: the Prometheus counter \<^verbatim>\<open>email_generation_count\<close> and
  the prompts sent so far to either backend.
\<close>

record world =
  email_generation_count :: nat
  openai_calls :: "string list"
  hf_calls :: "string list"

definition TONE_DESCRIPTIONS :: "(string \<times> string) list" where
  "TONE_DESCRIPTIONS = [
     (''Formal'', ''professional and business-appropriate''),
     (''Friendly'', ''warm and approachable while maintaining professionalism''),
     (''Persuasive'', ''convincing and compelling while being respectful''),
     (''Apologetic'', ''sincere and remorseful while maintaining professionalism''),
     (''Assertive'', ''confident and direct while remaining professional'')]"

record tone_example =
  greeting :: string
  closing :: string

definition TONE_EXAMPLES :: "(string \<times> tone_example) list" where
  "TONE_EXAMPLES = [
     (''Formal'', \<lparr>greeting = ''Dear [Name],'', closing = ''Best regards,''\<rparr>),
     (''Friendly'', \<lparr>greeting = ''Hi [Name],'', closing = ''Thanks and best wishes,''\<rparr>),
     (''Persuasive'', \<lparr>greeting = ''Dear [Name],'', closing = ''Looking forward to your positive response,''\<rparr>),
     (''Apologetic'', \<lparr>greeting = ''Dear [Name],'', closing = ''Sincerely apologizing,''\<rparr>),
     (''Assertive'', \<lparr>greeting = ''Dear [Name],'', closing = ''Best regards,''\<rparr>)]"

text \<open>\<^verbatim>\<open>s.replace(old, new)\<close> for a non-empty \<open>old\<close>: left to right, without overlaps.\<close>

function str_replace :: "string \<Rightarrow> string \<Rightarrow> string \<Rightarrow> string" where
  "str_replace s old new =
     (if s = [] \<or> old = [] then s
      else if prefix old s then new @ str_replace (drop (length old) s) old new
      else hd s # str_replace (tl s) old new)"
  by pat_completeness auto
termination
  by (relation "measure (\<lambda>(s, old, new). length s)") auto

definition newline :: string where
  "newline = [CHR 0x0A]"

definition gpt_prompt :: "string \<Rightarrow> string \<Rightarrow> string \<Rightarrow> string \<Rightarrow> string \<Rightarrow> string option \<Rightarrow> string \<Rightarrow> string" where
  "gpt_prompt tone_desc subject context tone greeting_line recipient_name closing_line =
     str_join newline [
       ''Generate a '' @ tone_desc @ '' email based on the following:'',
       [],
       ''Subject: '' @ subject,
       ''Context: '' @ context,
       [],
       ''Requirements:'',
       ''- Use '' @ str_lower tone @ '' tone'',
       ''- Be clear and concise'',
       ''- Follow proper email structure'',
       ''- Include appropriate greeting and closing'',
       ''- Maintain professional language'',
       ''- Address key points from the context'',
       [],
       ''Email structure:'',
       ''1. Start with: '' @ [CHR 0x22]
          @ (if recipient_name \<noteq> None \<and> recipient_name \<noteq> Some [] then greeting_line else ''Dear Sir/Madam,'')
          @ [CHR 0x22],
       ''2. Introduction paragraph'',
       ''3. Main content paragraphs'',
       ''4. Closing paragraph'',
       ''5. End with: '' @ [CHR 0x22] @ closing_line @ [CHR 0x22],
       []]"

definition hf_prompt :: "string \<Rightarrow> string \<Rightarrow> string \<Rightarrow> string" where
  "hf_prompt subject context tone =
     str_join newline [
       ''Write a '' @ str_lower tone @ '' email.'',
       ''Subject: '' @ subject,
       ''Details: '' @ context,
       ''Make it clear, professional, and well-structured.'',
       ''Use proper email format with greeting and closing.'']"

text \<open>
  \<^verbatim>\<open>generate_email_with_huggingface\<close>: the prompt is built outside the \<^verbatim>\<open>try\<close>; inside
  it the pipeline is called, the counter incremented, and the text of the first result
  read; any exception becomes the returned error string.
\<close>

definition generate_email_with_huggingface ::
  "backends \<Rightarrow> world \<Rightarrow> string \<Rightarrow> string \<Rightarrow> string \<Rightarrow> (error + string) \<times> world" where
  "generate_email_with_huggingface env w subject context tone =
     (let prompt = hf_prompt subject context tone;
          w1 = w\<lparr>hf_calls := hf_calls w @ [prompt]\<rparr>
      in case hf_generator env prompt of
           Inl e \<Rightarrow> (Inr (''Error generating email: '' @ str_of_error e), w1)
         | Inr result \<Rightarrow>
             (let w2 = w1\<lparr>email_generation_count := email_generation_count w1 + 1\<rparr>
              in case result of
                   [] \<Rightarrow> (Inr (''Error generating email: '' @ str_of_error IndexError), w2)
                 | d # _ \<Rightarrow>
                     (case map_of d ''generated_text'' of
                        None \<Rightarrow> (Inr (''Error generating email: '' @ str_of_error (KeyError ''generated_text'')), w2)
                      | Some generated_text \<Rightarrow> (Inr (str_strip generated_text), w2))))"

text \<open>
  The first part of the \<^verbatim>\<open>try\<close> block of \<^verbatim>\<open>generate_email_with_gpt\<close>: the description
  lookup with its default, the \<^verbatim>\<open>TONE_EXAMPLES[tone]\<close> subscript, the greeting and the
  prompt, in the order of the source.
\<close>

definition build_gpt_prompt :: "string \<Rightarrow> string \<Rightarrow> string \<Rightarrow> string option \<Rightarrow> error + string" where
  "build_gpt_prompt subject context tone recipient_name =
     (let tone_desc = (case map_of TONE_DESCRIPTIONS tone of None \<Rightarrow> ''professional'' | Some d \<Rightarrow> d)
      in case map_of TONE_EXAMPLES tone of
           None \<Rightarrow> Inl (KeyError tone)
         | Some example \<Rightarrow>
             (let greeting = str_replace (greeting example) ''[Name]''
                               (case recipient_name of None \<Rightarrow> [] | Some n \<Rightarrow> n)
              in Inr (gpt_prompt tone_desc subject context tone greeting recipient_name (closing example))))"

text \<open>
  The whole \<^verbatim>\<open>try\<close> block: the prompt, the call, the counter and the content of the
  first choice.
\<close>

definition gpt_try :: "backends \<Rightarrow> world \<Rightarrow> string \<Rightarrow> string \<Rightarrow> string \<Rightarrow> string option \<Rightarrow> (error + string) \<times> world" where
  "gpt_try env w subject context tone recipient_name =
     (case build_gpt_prompt subject context tone recipient_name of
        Inl e \<Rightarrow> (Inl e, w)
      | Inr prompt \<Rightarrow>
          (let w1 = w\<lparr>openai_calls := openai_calls w @ [prompt]\<rparr>
           in case openai_create env prompt of
                Inl e \<Rightarrow> (Inl e, w1)
              | Inr response \<Rightarrow>
                  (let w2 = w1\<lparr>email_generation_count := email_generation_count w1 + 1\<rparr>
                   in case response of
                        [] \<Rightarrow> (Inl IndexError, w2)
                      | None # _ \<Rightarrow> (Inl AttributeError, w2)
                      | Some content # _ \<Rightarrow> (Inr (str_strip content), w2))))"

text \<open>\<^verbatim>\<open>generate_email_with_gpt\<close>: the \<^verbatim>\<open>except Exception\<close> handler calls the fallback.\<close>

definition generate_email_with_gpt ::
  "backends \<Rightarrow> world \<Rightarrow> string \<Rightarrow> string \<Rightarrow> string \<Rightarrow> string option \<Rightarrow> (error + string) \<times> world" where
  "generate_email_with_gpt env w subject context tone recipient_name =
     (case gpt_try env w subject context tone recipient_name of
        (Inr content, w') \<Rightarrow> (Inr content, w')
      | (Inl e, w') \<Rightarrow> generate_email_with_huggingface env w' subject context tone)"

text \<open>
  \<^verbatim>\<open>generate_email\<close>; \<open>now\<close> is \<^verbatim>\<open>str(datetime.now())\<close>. The returned dictionary is an
  association list in the order of the literal.
\<close>

definition generate_email ::
  "backends \<Rightarrow> world \<Rightarrow> string \<Rightarrow> string \<Rightarrow> string \<Rightarrow> string option \<Rightarrow> bool \<Rightarrow> string
     \<Rightarrow> (error + (string \<times> string) list) \<times> world" where
  "generate_email env w subject context tone recipient_name use_gpt now =
     (case (if use_gpt then generate_email_with_gpt env w subject context tone recipient_name
            else generate_email_with_huggingface env w subject context tone) of
        (Inl e, w') \<Rightarrow> (Inl e, w')
      | (Inr content, w') \<Rightarrow>
          (Inr [(''content'', content),
                (''tone'', tone),
                (''subject'', subject),
                (''generated_at'', now),
                (''model_used'', if use_gpt then ''GPT-3.5'' else HF_MODEL env)], w'))"

section \<open>services/resume_matcher.py\<close>

text \<open>
  The three regular expressions of \<^verbatim>\<open>skill_patterns\<close>, in the order of the list:
  tool and language names, capitalised terms, skill statements.
\<close>

datatype skill_pattern = ToolPattern | CapitalizedPattern | StatementPattern

definition skill_patterns :: "skill_pattern list" where
  "skill_patterns = [ToolPattern, CapitalizedPattern, StatementPattern]"

text \<open>
  The libraries the matcher calls: spaCy (\<open>ents\<close>: the text and label of each entity of
  \<^verbatim>\<open>nlp(text).ents\<close>; \<open>sents\<close>: the text of each sentence of \<^verbatim>\<open>nlp(text).sents\<close>),
  \<^verbatim>\<open>re.finditer\<close> with \<^verbatim>\<open>re.IGNORECASE\<close> (\<open>finditer\<close>: \<^verbatim>\<open>match.group()\<close> of each match),
  NLTK (\<open>stop_words\<close>, \<open>word_tokenize\<close>, \<open>lemmatize\<close>) and scikit-learn (\<open>tfidf_cosine\<close>:
  the cosine similarity of the TF-IDF vectors of two texts fitted on those two texts, or
  the exception the vectoriser raises).
\<close>

record libraries =
  ents :: "string \<Rightarrow> (string \<times> string) list"
  sents :: "string \<Rightarrow> string list"
  finditer :: "skill_pattern \<Rightarrow> string \<Rightarrow> string list"
  stop_words :: "string list"
  word_tokenize :: "string \<Rightarrow> string list"
  lemmatize :: "string \<Rightarrow> string"
  tfidf_cosine :: "string \<Rightarrow> string \<Rightarrow> error + rat"

text \<open>
  A Python \<^verbatim>\<open>set\<close> is a list without duplicates, in insertion order (the order in which
  Python iterates a set is not specified; nothing below depends on it).
\<close>

definition set_add :: "'a \<Rightarrow> 'a list \<Rightarrow> 'a list" where
  "set_add x xs = (if x \<in> set xs then xs else xs @ [x])"

definition py_set :: "'a list \<Rightarrow> 'a list" where
  "py_set xs = fold set_add xs []"

definition extract_skills :: "libraries \<Rightarrow> string \<Rightarrow> string list" where
  "extract_skills lib text =
     (let skills = fold set_add
                     (map (\<lambda>ent. str_lower (fst ent))
                        (filter (\<lambda>ent. snd ent \<in> set [''ORG'', ''PRODUCT'', ''LANGUAGE'']) (ents lib text)))
                     [];
          skills = fold (\<lambda>pattern skills. fold set_add (map str_lower (finditer lib pattern text)) skills)
                     skill_patterns skills
      in filter (\<lambda>skill. length skill > 2 \<and> skill \<notin> set (stop_words lib)) skills)"

text \<open>\<^verbatim>\<open>re.sub(r'[^\w\s-]', ' ', text)\<close>\<close>

definition is_word_char :: "char \<Rightarrow> bool" where
  "is_word_char c = (c \<in> set (ascii_lowercase @ ascii_uppercase @ ''0123456789_''))"

definition sub_non_word :: "string \<Rightarrow> string" where
  "sub_non_word text = map (\<lambda>c. if is_word_char c \<or> is_space c \<or> c = CHR ''-'' then c else CHR '' '') text"

text \<open>The token loop of \<^verbatim>\<open>clean_text\<close>.\<close>

fun clean_tokens :: "libraries \<Rightarrow> string list \<Rightarrow> string list" where
  "clean_tokens lib [] = []"
| "clean_tokens lib (token # tokens) =
     (if token \<notin> set (stop_words lib) \<and> length token > 2
      then (if CHR ''-'' \<in> set token \<or> str_isupper token then token else lemmatize lib token)
             # clean_tokens lib tokens
      else clean_tokens lib tokens)"

definition clean_text :: "libraries \<Rightarrow> string \<Rightarrow> string" where
  "clean_text lib text =
     (let text = str_lower text;
          text = sub_non_word text;
          tokens = word_tokenize lib text
      in str_join '' '' (clean_tokens lib tokens))"

record requirements =
  required_skills :: "string list"
  preferred_skills :: "string list"
  experience :: "string list"
  education :: "string list"

text \<open>\<^verbatim>\<open>any(word in text for word in ws)\<close>\<close>

definition any_in :: "string list \<Rightarrow> string \<Rightarrow> bool" where
  "any_in ws text = list_ex (\<lambda>word. str_in word text) ws"

text \<open>The sentence loop of \<^verbatim>\<open>analyze_requirements\<close>.\<close>

fun analyze_sents :: "libraries \<Rightarrow> string list \<Rightarrow> requirements \<Rightarrow> requirements" where
  "analyze_sents lib [] reqs = reqs"
| "analyze_sents lib (sent # rest) reqs =
     analyze_sents lib rest
       (let text = str_lower sent in
        if any_in [''required'', ''must have'', ''essential''] text
        then reqs\<lparr>required_skills := required_skills reqs @ extract_skills lib sent\<rparr>
        else if any_in [''preferred'', ''desired'', ''plus''] text
        then reqs\<lparr>preferred_skills := preferred_skills reqs @ extract_skills lib sent\<rparr>
        else if any_in [''experience'', ''year''] text
        then reqs\<lparr>experience := experience reqs @ [str_strip sent]\<rparr>
        else if any_in [''degree'', ''education'', ''certification''] text
        then reqs\<lparr>education := education reqs @ [str_strip sent]\<rparr>
        else reqs)"

definition analyze_requirements :: "libraries \<Rightarrow> string \<Rightarrow> requirements" where
  "analyze_requirements lib job_description =
     analyze_sents lib (sents lib job_description)
       \<lparr>required_skills = [], preferred_skills = [], experience = [], education = []\<rparr>"

text \<open>
  \<^verbatim>\<open>len(resume_skills & skills) / len(skills) if skills else 1.0\<close>, written twice in
  \<^verbatim>\<open>compute_match_score\<close>, on sets.
\<close>

definition match_ratio :: "string list \<Rightarrow> string list \<Rightarrow> error + rat" where
  "match_ratio resume_skills skills =
     (if skills \<noteq> []
      then float_truediv (int (length (filter (\<lambda>s. s \<in> set skills) resume_skills))) (int (length skills))
      else Inr 1)"

text \<open>The literals \<^verbatim>\<open>0.4\<close>, \<^verbatim>\<open>0.2\<close>, \<^verbatim>\<open>0.4\<close> are the doubles nearest to 2/5 and 1/5.\<close>

definition weights :: "(string \<times> rat) list" where
  "weights = [(''required_skills'', round_double (2 / 5)),
              (''preferred_skills'', round_double (1 / 5)),
              (''content_similarity'', round_double (2 / 5))]"

text \<open>
  \<^verbatim>\<open>sum(score * weights[category] for category, score in detailed_scores.items())\<close>:
  from the start value 0, left to right, each product and each partial sum a double.
\<close>

fun weighted_sum :: "(string \<times> rat) list \<Rightarrow> (string \<times> rat) list \<Rightarrow> rat \<Rightarrow> error + rat" where
  "weighted_sum ws [] acc = Inr acc"
| "weighted_sum ws ((category, score) # rest) acc =
     (case map_of ws category of
        None \<Rightarrow> Inl (KeyError category)
      | Some wt \<Rightarrow> weighted_sum ws rest (fadd acc (fmul score wt)))"

text \<open>\<^verbatim>\<open>int(x)\<close> on a float: truncation towards zero.\<close>

definition int_of_float :: "rat \<Rightarrow> int" where
  "int_of_float x = (if 0 \<le> x then \<lfloor>x\<rfloor> else \<lceil>x\<rceil>)"

definition compute_match_score :: "libraries \<Rightarrow> string \<Rightarrow> string \<Rightarrow> error + (int \<times> (string \<times> rat) list)" where
  "compute_match_score lib resume_text job_description =
     (let resume_clean = clean_text lib resume_text;
          job_clean = clean_text lib job_description;
          resume_skills = py_set (extract_skills lib resume_text);
          job_reqs = analyze_requirements lib job_description;
          required_skills = py_set (required_skills job_reqs);
          preferred_skills = py_set (preferred_skills job_reqs)
      in case match_ratio resume_skills required_skills of
           Inl e \<Rightarrow> Inl e
         | Inr required_match \<Rightarrow>
        (case match_ratio resume_skills preferred_skills of
           Inl e \<Rightarrow> Inl e
         | Inr preferred_match \<Rightarrow>
        (case tfidf_cosine lib resume_clean job_clean of
           Inl e \<Rightarrow> Inl e
         | Inr content_similarity \<Rightarrow>
        (let detailed_scores = [(''required_skills'', fmul required_match 100),
                                (''preferred_skills'', fmul preferred_match 100),
                                (''content_similarity'', fmul content_similarity 100)]
         in case weighted_sum weights detailed_scores 0 of
              Inl e \<Rightarrow> Inl e
            | Inr overall_score \<Rightarrow> Inr (int_of_float overall_score, detailed_scores)))))"

definition get_missing_requirements :: "libraries \<Rightarrow> string \<Rightarrow> string \<Rightarrow> (string \<times> string list) list" where
  "get_missing_requirements lib resume_text job_description =
     (let resume_skills = py_set (extract_skills lib resume_text);
          job_reqs = analyze_requirements lib job_description
      in [(''required'', filter (\<lambda>skill. skill \<notin> set resume_skills) (required_skills job_reqs)),
          (''preferred'', filter (\<lambda>skill. skill \<notin> set resume_skills) (preferred_skills job_reqs))])"

section \<open>The tone score of the specification\<close>

text \<open>
  The score as the specification words it: the number of a tone's preferred words found
  in the lower-cased text, plus twice the number of its preferred phrases found, minus the
  number of its avoid-words found, divided by the number of its words and phrases.
\<close>

definition count_found :: "string list \<Rightarrow> string \<Rightarrow> nat" where
  "count_found markers text_lower = length (filter (\<lambda>m. str_in (str_lower m) text_lower) markers)"

definition normalized_score :: "tone_characteristics \<Rightarrow> string \<Rightarrow> rat" where
  "normalized_score chars text_lower =
     (of_nat (count_found (words chars) text_lower)
        + 2 * of_nat (count_found (phrases chars) text_lower)
        - of_nat (count_found (avoid chars) text_lower))
     / of_nat (length (words chars) + length (phrases chars))"

section \<open>Outcomes of the backend calls\<close>

text \<open>
  What the two external calls of one \<^verbatim>\<open>generate_email\<close> do, as predicates on the
  collaborators and the arguments: the primary call raises when the prompt cannot be
  built or \<^verbatim>\<open>openai.ChatCompletion.create\<close> raises; it answers when the response has a
  first choice with text content. The fallback raises when the pipeline call raises.
\<close>

definition primary_raises :: "backends \<Rightarrow> string \<Rightarrow> string \<Rightarrow> string \<Rightarrow> string option \<Rightarrow> bool" where
  "primary_raises env subject context tone recipient_name =
     (case build_gpt_prompt subject context tone recipient_name of
        Inl e \<Rightarrow> True
      | Inr prompt \<Rightarrow> (case openai_create env prompt of Inl e \<Rightarrow> True | Inr response \<Rightarrow> False))"

definition primary_answers :: "backends \<Rightarrow> string \<Rightarrow> string \<Rightarrow> string \<Rightarrow> string option \<Rightarrow> bool" where
  "primary_answers env subject context tone recipient_name =
     (case build_gpt_prompt subject context tone recipient_name of
        Inl e \<Rightarrow> False
      | Inr prompt \<Rightarrow>
          (case openai_create env prompt of
             Inl e \<Rightarrow> False
           | Inr response \<Rightarrow> (case response of Some content # rest \<Rightarrow> True | _ \<Rightarrow> False)))"

definition fallback_raises :: "backends \<Rightarrow> string \<Rightarrow> string \<Rightarrow> string \<Rightarrow> bool" where
  "fallback_raises env subject context tone =
     (case hf_generator env (hf_prompt subject context tone) of Inl e \<Rightarrow> True | Inr result \<Rightarrow> False)"

text \<open>
  The overlap ratio of the specification, on sets: the part of the wanted skills that
  the resume has, and 1 when nothing is wanted.
\<close>

definition skill_overlap :: "string set \<Rightarrow> string set \<Rightarrow> rat" where
  "skill_overlap have wanted =
     (if wanted = {} then 1 else of_nat (card (have \<inter> wanted)) / of_nat (card wanted))"

section \<open>Example collaborators\<close>

text \<open>
  Splitting at separators: the maximal runs of characters that are not separators;
  \<^verbatim>\<open>s.split()\<close> is the split at whitespace.
\<close>

fun split_from :: "(char \<Rightarrow> bool) \<Rightarrow> string \<Rightarrow> string \<Rightarrow> string list" where
  "split_from sep cur [] = (if cur = [] then [] else [cur])"
| "split_from sep cur (c # cs) =
     (if sep c then (if cur = [] then split_from sep [] cs else cur # split_from sep [] cs)
      else split_from sep (cur @ [c]) cs)"

definition split_ws :: "string \<Rightarrow> string list" where
  "split_ws s = split_from is_space [] s"

text \<open>
  Stub libraries for concrete runs: no named entities, sentences ending at full stops, the tool
  pattern matching each whitespace-separated word and the other two patterns nothing,
  three stop words, a whitespace tokeniser, a lemmatiser that drops a final s, and a
  vectoriser that raises on two empty texts and otherwise reports similarity one half.
\<close>

definition example_libraries :: libraries where
  "example_libraries =
     \<lparr>ents = (\<lambda>text. []),
      sents = split_from (\<lambda>c. c = CHR ''.'') [],
      finditer = (\<lambda>pattern text. case pattern of ToolPattern \<Rightarrow> split_ws text | _ \<Rightarrow> []),
      stop_words = [''the'', ''and'', ''with''],
      word_tokenize = split_ws,
      lemmatize = (\<lambda>token. if token \<noteq> [] \<and> last token = CHR ''s'' then butlast token else token),
      tfidf_cosine = (\<lambda>a b. if a = [] \<and> b = [] then Inl ValueError else Inr (1 / 2))\<rparr>"

text \<open>
  The same libraries with a vectoriser that reports the double just below 1, as for two
  texts that are nearly the same, and with one that reports the double just above 1, which
  the rounding in the normalised dot product can give for two texts that are the same.
\<close>

definition near_identical_libraries :: libraries where
  "near_identical_libraries =
     example_libraries\<lparr>tfidf_cosine := (\<lambda>a b. Inr (1 - 1 / 2 ^ 53))\<rparr>"

definition identical_libraries :: libraries where
  "identical_libraries =
     example_libraries\<lparr>tfidf_cosine := (\<lambda>a b. Inr (1 + 1 / 2 ^ 52))\<rparr>"

text \<open>
  Stub backends for concrete runs: a primary backend that raises with a working fallback,
  a pair of backends that both raise, and a pair whose primary backend answers.
\<close>

definition fallback_backends :: backends where
  "fallback_backends =
     \<lparr>openai_create = (\<lambda>prompt. Inl (BackendError ''timeout'')),
      hf_generator = (\<lambda>prompt. Inr [ [(''generated_text'', '' Hello '')] ]),
      HF_MODEL = ''microsoft/phi-2''\<rparr>"

definition failing_backends :: backends where
  "failing_backends =
     \<lparr>openai_create = (\<lambda>prompt. Inl (BackendError ''timeout'')),
      hf_generator = (\<lambda>prompt. Inl (BackendError ''out of memory'')),
      HF_MODEL = ''microsoft/phi-2''\<rparr>"

definition working_backends :: backends where
  "working_backends =
     \<lparr>openai_create = (\<lambda>prompt. Inr [Some ''Dear Sir/Madam, ...'']),
      hf_generator = (\<lambda>prompt. Inr [ [(''generated_text'', '' Hello '')] ]),
      HF_MODEL = ''microsoft/phi-2''\<rparr>"

definition fresh_world :: world where
  "fresh_world = \<lparr>email_generation_count = 0, openai_calls = [], hf_calls = []\<rparr>"

section \<open>The generator: fallback and failures\<close>

lemma hf_never_raises:
  "\<exists>content w'. generate_email_with_huggingface env w subject context tone = (Inr content, w')"
  by (simp add: generate_email_with_huggingface_def Let_def split: sum.split list.split option.split)

lemma gpt_never_raises:
  "\<exists>content w'. generate_email_with_gpt env w subject context tone recipient_name = (Inr content, w')"
  using hf_never_raises
  by (simp add: generate_email_with_gpt_def split: prod.split sum.split)

lemma map_of_TONE_EXAMPLES_None:
  "tone \<notin> set TONE_OPTIONS \<Longrightarrow> map_of TONE_EXAMPLES tone = None"
  by (simp add: TONE_OPTIONS_def TONE_EXAMPLES_def)

lemma build_gpt_prompt_unknown_tone:
  "tone \<notin> set TONE_OPTIONS \<Longrightarrow> build_gpt_prompt subject context tone recipient_name = Inl (KeyError tone)"
  by (simp add: build_gpt_prompt_def map_of_TONE_EXAMPLES_None)

lemma hf_calls_openai_unchanged:
  "openai_calls (snd (generate_email_with_huggingface env w subject context tone)) = openai_calls w"
  by (simp add: generate_email_with_huggingface_def Let_def split: sum.split list.split option.split)

text \<open>
  C10. For a tone string that is not one of the five catalog names, the
  \<^verbatim>\<open>TONE_EXAMPLES[tone]\<close> subscript raises \<^verbatim>\<open>KeyError\<close> while the prompt is built, before the
  primary backend is called. \<^verbatim>\<open>generate_email_with_gpt\<close> then does exactly what the
  Hugging Face fallback does from the same state: no prompt is sent to the primary
  backend, and the call returns a string (the fallback's text or its error string).
\<close>

theorem unknown_tone_skips_openai:
  assumes "tone \<notin> set TONE_OPTIONS"
  shows "build_gpt_prompt subject context tone recipient_name = Inl (KeyError tone)
         \<and> generate_email_with_gpt env w subject context tone recipient_name
             = generate_email_with_huggingface env w subject context tone
         \<and> openai_calls (snd (generate_email_with_gpt env w subject context tone recipient_name)) = openai_calls w
         \<and> (\<exists>content. fst (generate_email_with_gpt env w subject context tone recipient_name) = Inr content)"
proof -
  have b: "build_gpt_prompt subject context tone recipient_name = Inl (KeyError tone)"
    using assms by (rule build_gpt_prompt_unknown_tone)
  have t: "gpt_try env w subject context tone recipient_name = (Inl (KeyError tone), w)"
    by (simp add: gpt_try_def b)
  have e: "generate_email_with_gpt env w subject context tone recipient_name
             = generate_email_with_huggingface env w subject context tone"
    by (simp add: generate_email_with_gpt_def t)
  obtain content w' where h: "generate_email_with_huggingface env w subject context tone = (Inr content, w')"
    using hf_never_raises by blast
  show ?thesis
    using b e h hf_calls_openai_unchanged [of env w subject "context" tone] by simp
qed

theorem unknown_tone_skips_openai_witness:
  "''Casual'' \<notin> set TONE_OPTIONS
   \<and> build_gpt_prompt ''Hi'' ''x'' ''Casual'' None = Inl (KeyError ''Casual'')
   \<and> generate_email_with_gpt working_backends fresh_world ''Hi'' ''x'' ''Casual'' None
        = generate_email_with_huggingface working_backends fresh_world ''Hi'' ''x'' ''Casual''
   \<and> openai_calls (snd (generate_email_with_gpt working_backends fresh_world ''Hi'' ''x'' ''Casual'' None))
        = openai_calls fresh_world"
proof -
  have h: "''Casual'' \<notin> set TONE_OPTIONS" by (simp add: TONE_OPTIONS_def)
  show ?thesis
    using h unknown_tone_skips_openai [OF h, of "''Hi''" "''x''" None working_backends fresh_world]
    by blast
qed

lemma str_strip_Hello: "str_strip '' Hello '' = ''Hello''"
  by (simp add: str_strip_def is_space_def)

text \<open>
  C1. When the primary backend raises, \<^verbatim>\<open>generate_email\<close> with \<^verbatim>\<open>use_gpt=True\<close> returns a
  dictionary whose content is the fallback's text, but \<^verbatim>\<open>model_used\<close> is computed from
  the flag \<^verbatim>\<open>use_gpt\<close> alone: it reads GPT-3.5 although the Hugging Face model
  (the only backend that was sent a prompt and answered) produced the content.
\<close>

theorem fallback_reports_gpt_model:
  "fst (generate_email fallback_backends fresh_world ''Hi'' ''x'' ''Formal'' None True ''2026-01-01'')
     = Inr [(''content'', ''Hello''), (''tone'', ''Formal''), (''subject'', ''Hi''),
            (''generated_at'', ''2026-01-01''), (''model_used'', ''GPT-3.5'')]
   \<and> HF_MODEL fallback_backends = ''microsoft/phi-2''
   \<and> hf_calls (snd (generate_email fallback_backends fresh_world ''Hi'' ''x'' ''Formal'' None True ''2026-01-01''))
        = [hf_prompt ''Hi'' ''x'' ''Formal'']"
  by (simp add: generate_email_def generate_email_with_gpt_def gpt_try_def build_gpt_prompt_def
        TONE_EXAMPLES_def generate_email_with_huggingface_def fallback_backends_def fresh_world_def
        str_strip_Hello Let_def)

text \<open>
  C5, as stated, fails: for the unknown tone Casual the prompt construction raises
  \<^verbatim>\<open>KeyError\<close>, and \<^verbatim>\<open>generate_email\<close> still returns a dictionary, with the fallback's text.
\<close>

theorem unknown_tone_not_propagated:
  "build_gpt_prompt ''Hi'' ''x'' ''Casual'' None = Inl (KeyError ''Casual'')
   \<and> fst (generate_email fallback_backends fresh_world ''Hi'' ''x'' ''Casual'' None True ''2026-01-01'')
     = Inr [(''content'', ''Hello''), (''tone'', ''Casual''), (''subject'', ''Hi''),
            (''generated_at'', ''2026-01-01''), (''model_used'', ''GPT-3.5'')]"
  by (simp add: generate_email_def generate_email_with_gpt_def gpt_try_def build_gpt_prompt_def
        TONE_EXAMPLES_def generate_email_with_huggingface_def fallback_backends_def fresh_world_def
        str_strip_Hello Let_def)

text \<open>
  C5, amended. For every tone that is a string, with string subject and context,
  \<^verbatim>\<open>generate_email\<close> propagates no exception: for either value of \<^verbatim>\<open>use_gpt\<close> it returns a
  dictionary. A failure of prompt construction for a tone string outside the catalog is
  raised inside the \<^verbatim>\<open>try\<close> block and handled by the same catch-all fallback as a
  backend failure: the content is then the string the Hugging Face path returns from the
  same state. (The arguments of the model are strings. A tone that is not a string is
  outside this statement: the fallback builds its prompt with \<^verbatim>\<open>tone.lower()\<close> before
  its own \<^verbatim>\<open>try\<close>.)
\<close>

theorem generate_email_never_raises:
  "(\<exists>result w'. generate_email env w subject context tone recipient_name use_gpt now = (Inr result, w'))
   \<and> (tone \<notin> set TONE_OPTIONS \<longrightarrow>
        (\<exists>content w'. generate_email_with_huggingface env w subject context tone = (Inr content, w')
           \<and> generate_email env w subject context tone recipient_name True now
               = (Inr [(''content'', content), (''tone'', tone), (''subject'', subject),
                       (''generated_at'', now), (''model_used'', ''GPT-3.5'')], w')))"
proof (intro conjI impI)
  show "\<exists>result w'. generate_email env w subject context tone recipient_name use_gpt now = (Inr result, w')"
  proof (cases use_gpt)
    case True
    obtain content w' where "generate_email_with_gpt env w subject context tone recipient_name = (Inr content, w')"
      using gpt_never_raises by blast
    with True show ?thesis by (simp add: generate_email_def)
  next
    case False
    obtain content w' where "generate_email_with_huggingface env w subject context tone = (Inr content, w')"
      using hf_never_raises by blast
    with False show ?thesis by (simp add: generate_email_def)
  qed
next
  assume u: "tone \<notin> set TONE_OPTIONS"
  have g: "generate_email_with_gpt env w subject context tone recipient_name
             = generate_email_with_huggingface env w subject context tone"
    by (simp add: generate_email_with_gpt_def gpt_try_def build_gpt_prompt_unknown_tone [OF u])
  obtain content w' where h: "generate_email_with_huggingface env w subject context tone = (Inr content, w')"
    using hf_never_raises by blast
  show "\<exists>content w'. generate_email_with_huggingface env w subject context tone = (Inr content, w')
           \<and> generate_email env w subject context tone recipient_name True now
               = (Inr [(''content'', content), (''tone'', tone), (''subject'', subject),
                       (''generated_at'', now), (''model_used'', ''GPT-3.5'')], w')"
    using g h by (simp add: generate_email_def)
qed

theorem generate_email_never_raises_witness:
  "''Casual'' \<notin> set TONE_OPTIONS
   \<and> generate_email fallback_backends fresh_world ''Hi'' ''x'' ''Casual'' None True ''2026-01-01''
       = (Inr [(''content'', ''Hello''), (''tone'', ''Casual''), (''subject'', ''Hi''),
               (''generated_at'', ''2026-01-01''), (''model_used'', ''GPT-3.5'')],
          snd (generate_email_with_huggingface fallback_backends fresh_world ''Hi'' ''x'' ''Casual''))"
proof -
  have h: "''Casual'' \<notin> set TONE_OPTIONS" by (simp add: TONE_OPTIONS_def)
  have f: "fst (generate_email_with_huggingface fallback_backends fresh_world ''Hi'' ''x'' ''Casual'') = Inr ''Hello''"
    by (simp add: generate_email_with_huggingface_def fallback_backends_def str_strip_Hello Let_def)
  show ?thesis
    using h f generate_email_never_raises [of fallback_backends fresh_world "''Hi''" "''x''" "''Casual''" None True "''2026-01-01''"]
    by auto
qed

section \<open>The generator: the generation counter\<close>

lemma hf_count:
  "email_generation_count (snd (generate_email_with_huggingface env w subject context tone))
     = (if fallback_raises env subject context tone then email_generation_count w
        else email_generation_count w + 1)"
  by (simp add: generate_email_with_huggingface_def fallback_raises_def Let_def
           split: sum.split list.split option.split)

lemma gpt_try_raises:
  "primary_raises env subject context tone recipient_name \<Longrightarrow>
   \<exists>e w1. gpt_try env w subject context tone recipient_name = (Inl e, w1)
          \<and> email_generation_count w1 = email_generation_count w"
  by (auto simp: primary_raises_def gpt_try_def Let_def split: sum.splits)

lemma gpt_try_answers:
  "primary_answers env subject context tone recipient_name \<Longrightarrow>
   \<exists>content w1. gpt_try env w subject context tone recipient_name = (Inr content, w1)
          \<and> email_generation_count w1 = email_generation_count w + 1"
  by (auto simp: primary_answers_def gpt_try_def Let_def split: sum.splits list.splits option.splits)

lemma gpt_count_answers:
  assumes "primary_answers env subject context tone recipient_name"
  shows "email_generation_count (snd (generate_email_with_gpt env w subject context tone recipient_name))
           = email_generation_count w + 1"
proof -
  obtain content w1 where "gpt_try env w subject context tone recipient_name = (Inr content, w1)"
    and "email_generation_count w1 = email_generation_count w + 1"
    using gpt_try_answers [OF assms] by blast
  then show ?thesis by (simp add: generate_email_with_gpt_def)
qed

lemma gpt_count_raises:
  assumes "primary_raises env subject context tone recipient_name"
  shows "email_generation_count (snd (generate_email_with_gpt env w subject context tone recipient_name))
           = (if fallback_raises env subject context tone then email_generation_count w
              else email_generation_count w + 1)"
proof -
  obtain e w1 where "gpt_try env w subject context tone recipient_name = (Inl e, w1)"
    and "email_generation_count w1 = email_generation_count w"
    using gpt_try_raises [OF assms] by blast
  then show ?thesis by (simp add: generate_email_with_gpt_def hf_count)
qed

lemma generate_email_world:
  "snd (generate_email env w subject context tone recipient_name use_gpt now)
     = snd (if use_gpt then generate_email_with_gpt env w subject context tone recipient_name
            else generate_email_with_huggingface env w subject context tone)"
  by (simp add: generate_email_def split: prod.split sum.split)

lemma primary_answers_working: "primary_answers working_backends ''Hi'' ''x'' ''Formal'' None"
  by (simp add: primary_answers_def build_gpt_prompt_def TONE_EXAMPLES_def working_backends_def Let_def)

lemma primary_raises_fallback: "primary_raises fallback_backends ''Hi'' ''x'' ''Formal'' None"
  by (simp add: primary_raises_def build_gpt_prompt_def TONE_EXAMPLES_def fallback_backends_def Let_def)

lemma primary_raises_failing: "primary_raises failing_backends ''Hi'' ''x'' ''Formal'' None"
  by (simp add: primary_raises_def build_gpt_prompt_def TONE_EXAMPLES_def failing_backends_def Let_def)

lemma fallback_raises_failing: "fallback_raises failing_backends ''Hi'' ''x'' ''Formal''"
  by (simp add: fallback_raises_def failing_backends_def)

lemma fallback_returns_fallback: "\<not> fallback_raises fallback_backends ''Hi'' ''x'' ''Formal''"
  by (simp add: fallback_raises_def fallback_backends_def)

text \<open>
  C6, as stated, fails: when both backend calls raise, the call returns the error string
  and the counter keeps its value.
\<close>

theorem double_failure_leaves_counter:
  "email_generation_count
     (snd (generate_email failing_backends fresh_world ''Hi'' ''x'' ''Formal'' None True ''2026-01-01''))
     = email_generation_count fresh_world
   \<and> fst (generate_email failing_backends fresh_world ''Hi'' ''x'' ''Formal'' None True ''2026-01-01'')
     = Inr [(''content'', ''Error generating email: out of memory''), (''tone'', ''Formal''),
            (''subject'', ''Hi''), (''generated_at'', ''2026-01-01''), (''model_used'', ''GPT-3.5'')]"
  by (simp add: generate_email_def generate_email_with_gpt_def gpt_try_def build_gpt_prompt_def
        TONE_EXAMPLES_def generate_email_with_huggingface_def failing_backends_def fresh_world_def Let_def)

text \<open>
  C6, amended. The counter counts the calls in which a backend call returned. With
  \<^verbatim>\<open>use_gpt=True\<close>: one increment when the primary backend answers; one increment when
  the primary call raises and the fallback pipeline returns; none when both raise. With
  \<^verbatim>\<open>use_gpt=False\<close>: one increment when the pipeline returns, none when it raises.
\<close>

theorem generation_count_on_success_only:
  "(primary_answers env subject context tone recipient_name \<longrightarrow>
      email_generation_count (snd (generate_email env w subject context tone recipient_name True now))
        = email_generation_count w + 1)
   \<and> (primary_raises env subject context tone recipient_name \<and> \<not> fallback_raises env subject context tone \<longrightarrow>
      email_generation_count (snd (generate_email env w subject context tone recipient_name True now))
        = email_generation_count w + 1)
   \<and> (primary_raises env subject context tone recipient_name \<and> fallback_raises env subject context tone \<longrightarrow>
      email_generation_count (snd (generate_email env w subject context tone recipient_name True now))
        = email_generation_count w)
   \<and> (\<not> fallback_raises env subject context tone \<longrightarrow>
      email_generation_count (snd (generate_email env w subject context tone recipient_name False now))
        = email_generation_count w + 1)
   \<and> (fallback_raises env subject context tone \<longrightarrow>
      email_generation_count (snd (generate_email env w subject context tone recipient_name False now))
        = email_generation_count w)"
  by (simp add: generate_email_world gpt_count_answers gpt_count_raises hf_count)

theorem generation_count_on_success_only_witness:
  "primary_answers working_backends ''Hi'' ''x'' ''Formal'' None
   \<and> email_generation_count (snd (generate_email working_backends fresh_world ''Hi'' ''x'' ''Formal'' None True ''2026-01-01'')) = 1
   \<and> primary_raises fallback_backends ''Hi'' ''x'' ''Formal'' None
   \<and> \<not> fallback_raises fallback_backends ''Hi'' ''x'' ''Formal''
   \<and> email_generation_count (snd (generate_email fallback_backends fresh_world ''Hi'' ''x'' ''Formal'' None True ''2026-01-01'')) = 1
   \<and> primary_raises failing_backends ''Hi'' ''x'' ''Formal'' None
   \<and> fallback_raises failing_backends ''Hi'' ''x'' ''Formal''
   \<and> email_generation_count (snd (generate_email failing_backends fresh_world ''Hi'' ''x'' ''Formal'' None True ''2026-01-01'')) = 0
   \<and> email_generation_count (snd (generate_email fallback_backends fresh_world ''Hi'' ''x'' ''Formal'' None False ''2026-01-01'')) = 1
   \<and> email_generation_count (snd (generate_email failing_backends fresh_world ''Hi'' ''x'' ''Formal'' None False ''2026-01-01'')) = 0"
proof -
  have c: "email_generation_count fresh_world = 0" by (simp add: fresh_world_def)
  show ?thesis
    using generation_count_on_success_only [of working_backends "''Hi''" "''x''" "''Formal''" None fresh_world "''2026-01-01''"]
          generation_count_on_success_only [of fallback_backends "''Hi''" "''x''" "''Formal''" None fresh_world "''2026-01-01''"]
          generation_count_on_success_only [of failing_backends "''Hi''" "''x''" "''Formal''" None fresh_world "''2026-01-01''"]
          primary_answers_working primary_raises_fallback primary_raises_failing
          fallback_raises_failing fallback_returns_fallback c
    by simp
qed

section \<open>The matcher: scores\<close>

lemma set_fold_set_add: "set (fold set_add xs acc) = set xs \<union> set acc"
  by (induction xs arbitrary: acc) (auto simp: set_add_def)

lemma distinct_fold_set_add: "distinct acc \<Longrightarrow> distinct (fold set_add xs acc)"
  by (induction xs arbitrary: acc) (auto simp: set_add_def)

lemma set_py_set: "set (py_set xs) = set xs"
  by (simp add: py_set_def set_fold_set_add)

lemma distinct_py_set: "distinct (py_set xs)"
  by (simp add: py_set_def distinct_fold_set_add)

lemma py_set_empty: "py_set xs = [] \<longleftrightarrow> xs = []"
  using set_py_set [of xs] by (metis set_empty)

text \<open>Rounding to a double: the exponent, monotonicity and the rounding error.\<close>

lemma of_int_bitlen_bounds:
  assumes "0 < a"
  shows "(2::rat) powi (bitlen a - 1) \<le> of_int a" and "of_int a < (2::rat) powi bitlen a"
proof -
  have n: "0 \<le> bitlen a - 1" using assms bitlen_eq_zero_iff [of a] bitlen_nonneg [of a] by linarith
  have b: "(2::int) ^ nat (bitlen a - 1) \<le> a" "a < 2 ^ nat (bitlen a)"
    using bitlen_bounds [OF assms] by simp_all
  have "(of_int ((2::int) ^ nat (bitlen a - 1)) :: rat) \<le> of_int a" using b(1) by (simp only: of_int_le_iff)
  then show "(2::rat) powi (bitlen a - 1) \<le> of_int a" using n by (simp add: power_int_def)
  have "(of_int a :: rat) < of_int ((2::int) ^ nat (bitlen a))" using b(2) by (simp only: of_int_less_iff)
  then show "of_int a < (2::rat) powi bitlen a" using n by (simp add: power_int_def)
qed

lemma float_exponent_bounds:
  assumes "0 < x"
  shows "2 powi float_exponent x \<le> x" and "x < 2 powi (float_exponent x + 1)"
proof -
  obtain a b where q: "quotient_of x = (a, b)" by force
  have b: "0 < b" using q by (rule quotient_of_denom_pos)
  have x: "x = of_int a / of_int b" using q by (rule quotient_of_div)
  have a: "0 < a" using assms b by (simp add: x zero_less_divide_iff)
  define d where "d = bitlen a - bitlen b"
  have pa: "(2::rat) powi (bitlen a - 1) \<le> of_int a" "of_int a < (2::rat) powi bitlen a"
    using of_int_bitlen_bounds [OF a] by simp_all
  have pb: "(2::rat) powi (bitlen b - 1) \<le> of_int b" "of_int b < (2::rat) powi bitlen b"
    using of_int_bitlen_bounds [OF b] by simp_all
  have bpos: "(0::rat) < of_int b" using b by simp
  have apos: "(0::rat) < of_int a" using a by simp
  have "x < 2 powi bitlen a / 2 powi (bitlen b - 1)"
    unfolding x using pa(2) pb(1) apos bpos
    by (intro frac_less) simp_all
  also have "\<dots> = 2 powi (d + 1)"
    by (simp add: d_def power_int_diff [symmetric] algebra_simps)
  finally have up: "x < 2 powi (d + 1)" .
  have "(2::rat) powi (d - 1) = 2 powi (bitlen a - 1) / 2 powi bitlen b"
    by (simp add: d_def power_int_diff [symmetric] algebra_simps)
  also have "\<dots> < x"
    unfolding x using pa(1) pb(2) bpos
    by (intro frac_less2) simp_all
  finally have lo: "2 powi (d - 1) < x" .
  have e: "float_exponent x = (if 2 powi d \<le> x then d else d - 1)"
    by (simp add: float_exponent_def q d_def Let_def)
  show "2 powi float_exponent x \<le> x" using lo by (simp add: e)
  show "x < 2 powi (float_exponent x + 1)" using up by (auto simp: e not_le)
qed


lemma round_half_even_lower: "q - 1 / 2 \<le> of_int (round_half_even q)"
  unfolding round_half_even_def Let_def by (auto; linarith)

lemma round_half_even_upper: "of_int (round_half_even q) \<le> q + 1 / 2"
  unfolding round_half_even_def Let_def by (auto; linarith)

lemma round_half_even_of_int: "round_half_even (of_int n) = n"
  by (simp add: round_half_even_def)

lemma round_half_even_mono:
  assumes "q \<le> q'"
  shows "round_half_even q \<le> round_half_even q'"
proof (cases "\<lfloor>q\<rfloor> = \<lfloor>q'\<rfloor>")
  case True
  then show ?thesis
    using assms unfolding round_half_even_def Let_def by auto
next
  case False
  then have "\<lfloor>q\<rfloor> + 1 \<le> \<lfloor>q'\<rfloor>" using floor_mono [OF assms] by linarith
  moreover have "round_half_even q \<le> \<lfloor>q\<rfloor> + 1" unfolding round_half_even_def Let_def by auto
  moreover have "\<lfloor>q'\<rfloor> \<le> round_half_even q'" unfolding round_half_even_def Let_def by auto
  ultimately show ?thesis by linarith
qed

lemma round_half_even_le: "q \<le> of_int n \<Longrightarrow> round_half_even q \<le> n"
  using round_half_even_mono [of q "of_int n"] by (simp add: round_half_even_of_int)

lemma round_half_even_ge: "of_int n \<le> q \<Longrightarrow> n \<le> round_half_even q"
  using round_half_even_mono [of "of_int n" q] by (simp add: round_half_even_of_int)

lemma float_ulp_pos: "0 < float_ulp y"
  by (simp add: float_ulp_def)

lemma round_double_pos:
  "0 < x \<Longrightarrow> round_double x = of_int (round_half_even (x / float_ulp x)) * float_ulp x"
  by (simp add: round_double_def Let_def)

lemma round_double_nonneg:
  assumes "0 \<le> x"
  shows "0 \<le> round_double x"
proof (cases "x = 0")
  case True
  then show ?thesis by (simp add: round_double_def)
next
  case False
  then have p: "0 < x" using assms by simp
  have "0 \<le> x / float_ulp x" using p float_ulp_pos [of x] by simp
  then have "0 \<le> round_half_even (x / float_ulp x)"
    using round_half_even_ge [of 0 "x / float_ulp x"] by simp
  then show ?thesis using float_ulp_pos [of x] by (simp add: round_double_pos [OF p])
qed

lemma two_powi_less_imp:
  assumes "(2::rat) powi m < 2 powi n"
  shows "m < n"
proof (rule ccontr)
  assume "\<not> m < n"
  then have "n \<le> m" by simp
  then have "(2::rat) powi n \<le> 2 powi m" by (intro power_int_increasing) simp_all
  with assms show False by simp
qed

lemma float_exponent_mono:
  assumes "0 < x" and "x \<le> y"
  shows "float_exponent x \<le> float_exponent y"
proof -
  have y: "0 < y" using assms by simp
  have "(2::rat) powi float_exponent x < 2 powi (float_exponent y + 1)"
    using float_exponent_bounds(1) [OF assms(1)] float_exponent_bounds(2) [OF y] assms(2) by linarith
  then have "float_exponent x < float_exponent y + 1"
    by (rule two_powi_less_imp)
  then show ?thesis by simp
qed


lemma two_powi_split: "(2::rat) powi (m + k) = 2 powi k * 2 powi m"
  by (simp add: power_int_add mult.commute)

lemma round_double_upper:
  assumes "0 < x"
  shows "round_double x \<le> 2 powi (max (float_exponent x) (- 1022) + 1)"
proof -
  define m where "m = max (float_exponent x) (- 1022)"
  have u: "float_ulp x = 2 powi (m - 52)" by (simp add: float_ulp_def m_def)
  have up: "0 < float_ulp x" by (rule float_ulp_pos)
  have s: "(2::rat) powi (m + 1) = of_int (2 ^ 53) * float_ulp x"
    using two_powi_split [of "m - 52" 53] by (simp add: u add.commute)
  have "x < 2 powi (float_exponent x + 1)" using assms by (rule float_exponent_bounds)
  also have "\<dots> \<le> 2 powi (m + 1)" by (intro power_int_increasing) (simp_all add: m_def)
  finally have "x < of_int (2 ^ 53) * float_ulp x" by (simp only: s)
  then have "x / float_ulp x \<le> of_int (2 ^ 53)" using up by (simp add: pos_divide_le_eq)
  then have "round_half_even (x / float_ulp x) \<le> 2 ^ 53" by (rule round_half_even_le)
  then have "(of_int (round_half_even (x / float_ulp x)) :: rat) \<le> of_int (2 ^ 53)"
    by (simp only: of_int_le_iff)
  then have "of_int (round_half_even (x / float_ulp x)) * float_ulp x \<le> of_int (2 ^ 53) * float_ulp x"
    using up by (simp only: mult_le_cancel_right_pos)
  then show ?thesis unfolding round_double_pos [OF assms] s m_def [symmetric] .
qed

lemma round_double_lower:
  assumes "0 < x" and "- 1022 \<le> float_exponent x"
  shows "2 powi float_exponent x \<le> round_double x"
proof -
  define e where "e = float_exponent x"
  have u: "float_ulp x = 2 powi (e - 52)" using assms(2) by (simp add: float_ulp_def e_def max_def)
  have up: "0 < float_ulp x" by (rule float_ulp_pos)
  have s: "(2::rat) powi e = of_int (2 ^ 52) * float_ulp x"
    using two_powi_split [of "e - 52" 52] by (simp add: u)
  have "of_int (2 ^ 52) * float_ulp x \<le> x"
    using float_exponent_bounds(1) [OF assms(1)] by (simp only: s [symmetric] e_def)
  then have "of_int (2 ^ 52) \<le> x / float_ulp x" using up by (simp add: pos_le_divide_eq)
  then have "2 ^ 52 \<le> round_half_even (x / float_ulp x)" by (rule round_half_even_ge)
  then have "(of_int (2 ^ 52) :: rat) \<le> of_int (round_half_even (x / float_ulp x))"
    by (simp only: of_int_le_iff)
  then have "of_int (2 ^ 52) * float_ulp x \<le> of_int (round_half_even (x / float_ulp x)) * float_ulp x"
    using up by (simp only: mult_le_cancel_right_pos)
  then show ?thesis unfolding round_double_pos [OF assms(1)] s e_def [symmetric] .
qed

lemma round_double_mono:
  assumes "0 \<le> x" and "x \<le> y"
  shows "round_double x \<le> round_double y"
proof (cases "x = 0")
  case True
  have "0 \<le> round_double y" using assms by (intro round_double_nonneg) simp
  then show ?thesis by (simp add: True round_double_def)
next
  case False
  then have x: "0 < x" using assms by simp
  then have y: "0 < y" using assms by simp
  define mx where "mx = max (float_exponent x) (- 1022)"
  define my where "my = max (float_exponent y) (- 1022)"
  have le: "mx \<le> my" using float_exponent_mono [OF x assms(2)] by (simp add: mx_def my_def)
  show ?thesis
  proof (cases "mx = my")
    case True
    then have u: "float_ulp x = float_ulp y" by (simp add: float_ulp_def mx_def my_def)
    have "x / float_ulp y \<le> y / float_ulp y"
      using assms(2) float_ulp_pos [of y] by (simp add: divide_right_mono)
    then have "round_half_even (x / float_ulp y) \<le> round_half_even (y / float_ulp y)"
      by (rule round_half_even_mono)
    then have "(of_int (round_half_even (x / float_ulp y)) :: rat) \<le> of_int (round_half_even (y / float_ulp y))"
      by (simp only: of_int_le_iff)
    then show ?thesis
      using float_ulp_pos [of y]
      by (simp only: round_double_pos [OF x] round_double_pos [OF y] u mult_le_cancel_right_pos)
  next
    case False
    then have lt: "mx + 1 \<le> my" using le by simp
    then have "- 1022 < my" by (simp add: mx_def)
    then have e: "my = float_exponent y" "- 1022 \<le> float_exponent y" by (simp_all add: my_def max_def split: if_splits)
    have "round_double x \<le> 2 powi (mx + 1)" using round_double_upper [OF x] by (simp add: mx_def)
    also have "\<dots> \<le> 2 powi my" using lt by (intro power_int_increasing) simp_all
    also have "\<dots> \<le> round_double y" using round_double_lower [OF y e(2)] by (simp add: e(1))
    finally show ?thesis .
  qed
qed

lemma round_double_error:
  assumes "0 \<le> x" and "x < 128"
  shows "\<bar>round_double x - x\<bar> \<le> 1 / 2 ^ 47"
proof (cases "x = 0")
  case True
  then show ?thesis by (simp add: round_double_def)
next
  case False
  then have x: "0 < x" using assms by simp
  have "(2::rat) powi float_exponent x < 2 powi 7"
    using float_exponent_bounds(1) [OF x] assms(2) by simp
  then have "float_exponent x < 7" by (rule two_powi_less_imp)
  then have "max (float_exponent x) (- 1022) - 52 \<le> - 46" by simp
  then have "float_ulp x \<le> 2 powi (- 46)"
    unfolding float_ulp_def by (intro power_int_increasing) simp_all
  then have u: "float_ulp x \<le> 1 / 2 ^ 46" by (simp add: power_int_def field_simps)
  have up: "0 < float_ulp x" by (rule float_ulp_pos)
  define q where "q = x / float_ulp x"
  have xq: "x = q * float_ulp x" using up by (simp add: q_def)
  have "\<bar>of_int (round_half_even q) - q\<bar> \<le> 1 / 2"
    using round_half_even_lower [of q] round_half_even_upper [of q] by linarith
  then have "\<bar>of_int (round_half_even q) - q\<bar> * float_ulp x \<le> 1 / 2 * (1 / 2 ^ 46)"
    using u up by (intro mult_mono) simp_all
  moreover have rd: "round_double x = of_int (round_half_even q) * float_ulp x"
    unfolding q_def using x by (rule round_double_pos)
  have "round_double x - x = of_int (round_half_even q) * float_ulp x - q * float_ulp x"
    using rd xq by linarith
  then have "round_double x - x = (of_int (round_half_even q) - q) * float_ulp x"
    by (simp only: left_diff_distrib)
  then have "\<bar>round_double x - x\<bar> = \<bar>of_int (round_half_even q) - q\<bar> * float_ulp x"
    using up by (simp only: abs_mult abs_of_pos)
  ultimately show ?thesis by simp
qed

text \<open>The category scores and the weighted sum in double arithmetic.\<close>

lemma double_literals:
  "round_double 0 = 0"
  "round_double 1 = 1"
  "round_double 40 = 40"
  "round_double 60 = 60"
  "round_double 100 = 100"
  "round_double (2 / 5) = 3602879701896397 / 9007199254740992"
  "round_double (1 / 5) = 3602879701896397 / 18014398509481984"
  "round_double (100 * (3602879701896397 / 9007199254740992)) = 40"
  "round_double (100 * (3602879701896397 / 18014398509481984)) = 20"
  by code_simp+

lemma length_filter_mem:
  assumes "distinct rs"
  shows "length (filter (\<lambda>s. s \<in> set q) rs) = card (set rs \<inter> set q)"
proof -
  have "set (filter (\<lambda>s. s \<in> set q) rs) = set rs \<inter> set q" by auto
  moreover have "distinct (filter (\<lambda>s. s \<in> set q) rs)" using assms by simp
  ultimately show ?thesis by (metis distinct_card)
qed

lemma match_ratio_eq:
  assumes "distinct rs" and "distinct q"
  shows "match_ratio rs q = Inr (round_double (skill_overlap (set rs) (set q)))"
proof (cases "q = []")
  case True
  then show ?thesis by (simp add: match_ratio_def skill_overlap_def double_literals)
next
  case False
  have "card (set q) = length q" using assms(2) by (rule distinct_card)
  then show ?thesis
    using False length_filter_mem [OF assms(1), of q]
    by (simp add: match_ratio_def skill_overlap_def float_truediv_def)
qed

lemma skill_overlap_bounds:
  assumes "finite wanted"
  shows "0 \<le> skill_overlap have wanted \<and> skill_overlap have wanted \<le> 1"
proof (cases "wanted = {}")
  case True
  then show ?thesis by (simp add: skill_overlap_def)
next
  case False
  have pos: "0 < card wanted" using assms False by (simp add: card_gt_0_iff)
  have "card (have \<inter> wanted) \<le> card wanted" using assms by (simp add: card_mono)
  then have "(of_nat (card (have \<inter> wanted)) :: rat) \<le> of_nat (card wanted)" by simp
  then show ?thesis using pos False by (simp add: skill_overlap_def)
qed

lemma weighted_sum_three:
  "weighted_sum weights [(''required_skills'', r), (''preferred_skills'', p), (''content_similarity'', s)] 0
     = Inr (fadd (fadd (fadd 0 (fmul r (round_double (2 / 5)))) (fmul p (round_double (1 / 5))))
              (fmul s (round_double (2 / 5))))"
  by (simp add: weights_def)

lemma compute_match_score_eq:
  "compute_match_score lib resume_text job_description =
     (case tfidf_cosine lib (clean_text lib resume_text) (clean_text lib job_description) of
        Inl e \<Rightarrow> Inl e
      | Inr c \<Rightarrow>
          (let r = fmul (round_double (skill_overlap (set (extract_skills lib resume_text))
                     (set (required_skills (analyze_requirements lib job_description))))) 100;
               p = fmul (round_double (skill_overlap (set (extract_skills lib resume_text))
                     (set (preferred_skills (analyze_requirements lib job_description))))) 100;
               s = fmul c 100
           in Inr (int_of_float
                     (fadd (fadd (fadd 0 (fmul r (round_double (2 / 5)))) (fmul p (round_double (1 / 5))))
                        (fmul s (round_double (2 / 5)))),
                   [(''required_skills'', r), (''preferred_skills'', p), (''content_similarity'', s)])))"
  by (simp add: compute_match_score_def Let_def match_ratio_eq distinct_py_set set_py_set
        weighted_sum_three del: weighted_sum.simps split: sum.split)

lemma fmul_100_bounds:
  assumes "0 \<le> x" and "x \<le> 1"
  shows "0 \<le> fmul x 100 \<and> fmul x 100 \<le> 100"
proof -
  have "0 \<le> x * 100" "x * 100 \<le> 100" using assms by simp_all
  then have "0 \<le> round_double (x * 100)" "round_double (x * 100) \<le> round_double 100"
    by (simp_all add: round_double_nonneg round_double_mono)
  then show ?thesis by (simp add: fmul_def double_literals)
qed

lemma round_double_unit:
  assumes "0 \<le> x" and "x \<le> 1"
  shows "0 \<le> round_double x \<and> round_double x \<le> 1"
  using round_double_nonneg [OF assms(1)] round_double_mono [OF assms] by (simp add: double_literals)


lemma fmul_weight:
  assumes "0 \<le> x" and "x \<le> 100" and "0 \<le> w" and "w \<le> 1" and "round_double (100 * w) = m"
  shows "0 \<le> fmul x w" and "fmul x w \<le> m" and "\<bar>fmul x w - x * w\<bar> \<le> 1 / 2 ^ 47"
proof -
  have n: "0 \<le> x * w" using assms by simp
  have "x * w \<le> 100 * w" using assms by (simp add: mult_right_mono)
  then have u: "x * w \<le> 100 * w" .
  have "100 * w \<le> 100" using assms by simp
  then have l: "x * w < 128" using u by linarith
  show "0 \<le> fmul x w" using n by (simp add: fmul_def round_double_nonneg)
  show "fmul x w \<le> m" using round_double_mono [OF n u] by (simp add: fmul_def assms(5))
  show "\<bar>fmul x w - x * w\<bar> \<le> 1 / 2 ^ 47" using round_double_error [OF n l] by (simp add: fmul_def)
qed

lemma fadd_bounded:
  assumes "0 \<le> x" and "x \<le> a" and "0 \<le> y" and "y \<le> b" and "round_double (a + b) = m" and "a + b < 128"
  shows "0 \<le> fadd x y" and "fadd x y \<le> m" and "\<bar>fadd x y - (x + y)\<bar> \<le> 1 / 2 ^ 47"
proof -
  have n: "0 \<le> x + y" using assms by simp
  have u: "x + y \<le> a + b" using assms by simp
  have l: "x + y < 128" using u assms(6) by linarith
  show "0 \<le> fadd x y" using n by (simp add: fadd_def round_double_nonneg)
  show "fadd x y \<le> m" using round_double_mono [OF n u] by (simp add: fadd_def assms(5))
  show "\<bar>fadd x y - (x + y)\<bar> \<le> 1 / 2 ^ 47" using round_double_error [OF n l] by (simp add: fadd_def)
qed

lemma float_weighted_sum_close:
  assumes "0 \<le> r" "r \<le> 100" "0 \<le> p" "p \<le> 100" "0 \<le> s" "s \<le> 100"
  defines "overall_score \<equiv> fadd (fadd (fadd 0 (fmul r (round_double (2 / 5)))) (fmul p (round_double (1 / 5))))
                      (fmul s (round_double (2 / 5)))"
  shows "0 \<le> overall_score" and "overall_score \<le> 100"
    and "\<bar>overall_score - (2 / 5 * r + 1 / 5 * p + 2 / 5 * s)\<bar> \<le> 1 / 2 ^ 44"
proof -
  define w1 :: rat where "w1 = 3602879701896397 / 9007199254740992"
  define w2 :: rat where "w2 = 3602879701896397 / 18014398509481984"
  have w1m: "round_double (100 * w1) = 40" unfolding w1_def by (rule double_literals)
  have w2m: "round_double (100 * w2) = 20" unfolding w2_def by (rule double_literals)
  have w1: "round_double (2 / 5) = w1" "0 \<le> w1" "w1 \<le> 1" "round_double (100 * w1) = 40"
    using w1m by (simp_all add: w1_def double_literals)
  have w2: "round_double (1 / 5) = w2" "0 \<le> w2" "w2 \<le> 1" "round_double (100 * w2) = 20"
    using w2m by (simp_all add: w2_def double_literals)
  define a where "a = fmul r w1"
  define b where "b = fmul p w2"
  define c where "c = fmul s w1"
  define s1 where "s1 = fadd 0 a"
  define s2 where "s2 = fadd s1 b"
  define s3 where "s3 = fadd s2 c"
  have t: "overall_score = s3" by (simp add: overall_score_def s3_def s2_def s1_def a_def b_def c_def w1(1) w2(1))
  have a: "0 \<le> a" "a \<le> 40" "\<bar>a - r * w1\<bar> \<le> 1 / 2 ^ 47"
    unfolding a_def using fmul_weight [OF assms(1,2) w1(2,3,4)] by simp_all
  have b: "0 \<le> b" "b \<le> 20" "\<bar>b - p * w2\<bar> \<le> 1 / 2 ^ 47"
    unfolding b_def using fmul_weight [OF assms(3,4) w2(2,3,4)] by simp_all
  have c: "0 \<le> c" "c \<le> 40" "\<bar>c - s * w1\<bar> \<le> 1 / 2 ^ 47"
    unfolding c_def using fmul_weight [OF assms(5,6) w1(2,3,4)] by simp_all
  have s1: "0 \<le> s1" "s1 \<le> 40" "\<bar>s1 - (0 + a)\<bar> \<le> 1 / 2 ^ 47"
    unfolding s1_def using fadd_bounded [of 0 0 a 40 40] a(1,2) by (simp_all add: double_literals)
  have s2: "0 \<le> s2" "s2 \<le> 60" "\<bar>s2 - (s1 + b)\<bar> \<le> 1 / 2 ^ 47"
    unfolding s2_def using fadd_bounded [of s1 40 b 20 60] s1(1,2) b(1,2) by (simp_all add: double_literals)
  have s3: "0 \<le> s3" "s3 \<le> 100" "\<bar>s3 - (s2 + c)\<bar> \<le> 1 / 2 ^ 47"
    unfolding s3_def using fadd_bounded [of s2 60 c 40 100] s2(1,2) c(1,2) by (simp_all add: double_literals)
  show "0 \<le> overall_score" "overall_score \<le> 100" using s3(1,2) by (simp_all add: t)
  define ra where "ra = r * w1"
  define pb where "pb = p * w2"
  define sc where "sc = s * w1"
  have e1: "ra = 2 / 5 * r + r / 45035996273704960" by (simp add: ra_def w1_def)
  have e2: "pb = 1 / 5 * p + p / 90071992547409920" by (simp add: pb_def w2_def)
  have e3: "sc = 2 / 5 * s + s / 45035996273704960" by (simp add: sc_def w1_def)
  have d: "\<bar>a - ra\<bar> \<le> 1 / 140737488355328" "\<bar>b - pb\<bar> \<le> 1 / 140737488355328"
    "\<bar>c - sc\<bar> \<le> 1 / 140737488355328" "\<bar>s1 - a\<bar> \<le> 1 / 140737488355328"
    "\<bar>s2 - (s1 + b)\<bar> \<le> 1 / 140737488355328" "\<bar>s3 - (s2 + c)\<bar> \<le> 1 / 140737488355328"
    using a(3) b(3) c(3) s1(3) s2(3) s3(3) by (simp_all add: ra_def pb_def sc_def)
  have g1: "\<bar>s3 - (a + b + c)\<bar> \<le> 3 / 140737488355328"
    using d(4,5,6) by linarith
  have g2: "\<bar>(a + b + c) - (ra + pb + sc)\<bar> \<le> 3 / 140737488355328"
    using d(1,2,3) by linarith
  have g3: "0 \<le> (ra + pb + sc) - (2 / 5 * r + 1 / 5 * p + 2 / 5 * s)"
    "(ra + pb + sc) - (2 / 5 * r + 1 / 5 * p + 2 / 5 * s) \<le> 1 / 140737488355328"
    using e1 e2 e3 assms(1-6) by linarith+
  have "\<bar>s3 - (2 / 5 * r + 1 / 5 * p + 2 / 5 * s)\<bar> \<le> 1 / 17592186044416"
    using g1 g2 g3 by linarith
  then have "\<bar>s3 - (2 / 5 * r + 1 / 5 * p + 2 / 5 * s)\<bar> \<le> 1 / 2 ^ 44" by simp
  then show "\<bar>overall_score - (2 / 5 * r + 1 / 5 * p + 2 / 5 * s)\<bar> \<le> 1 / 2 ^ 44" by (simp add: t)
qed

lemma example_double_rounding:
  "weighted_sum weights
     [(''required_skills'', fmul (round_double (2 / 3)) 100),
      (''preferred_skills'', fmul (round_double (1 / 6)) 100),
      (''content_similarity'', fmul 0 100)] 0
     = Inr (8444249301319679 / 281474976710656)"
  "int_of_float (8444249301319679 / 281474976710656) = 29"
  "\<lfloor>2 / 5 * (100 * (2 / 3)) + 1 / 5 * (100 * (1 / 6)) + 2 / 5 * (0::rat)\<rfloor> = 30"
  by code_simp+

text \<open>
  C2, as stated, fails in three ways. The vectoriser is called without a guard, and on two
  texts that clean to nothing it raises, so no score is returned. Where a score is
  returned it is the integer part of a sum of doubles: for two nearly identical texts
  without requirement sentences the category scores are 100, 100 and the double just
  below 100, the products round to 40, 20 and 40, the overall score is 100, and the
  floor of 0.4 * 100 + 0.2 * 100 + 0.4 * content score is 99. And a similarity that
  the vectoriser reports just above 1 gives a content score above 100.
\<close>

theorem match_score_not_floor_of_exact_sum:
  "compute_match_score example_libraries ''a'' ''b'' = Inl ValueError
   \<and> compute_match_score near_identical_libraries ''We build tools'' ''We build tools''
       = Inr (100, [(''required_skills'', 100), (''preferred_skills'', 100),
                    (''content_similarity'', 7036874417766399 / 70368744177664)])
   \<and> \<lfloor>2 / 5 * 100 + 1 / 5 * 100 + 2 / 5 * (7036874417766399 / 70368744177664 :: rat)\<rfloor> = 99
   \<and> compute_match_score identical_libraries ''We build tools'' ''We build tools''
       = Inr (100, [(''required_skills'', 100), (''preferred_skills'', 100),
                    (''content_similarity'', 3518437208883201 / 35184372088832)])
   \<and> (100::rat) < 3518437208883201 / 35184372088832"
  by code_simp

text \<open>
  C2, amended. Whenever the vectoriser returns a similarity \<open>c\<close> between 0 and 1,
  \<^verbatim>\<open>compute_match_score\<close> returns the three category scores, each a double between 0 and
  100: the required and the preferred overlap ratio (1.0 for an empty set) and the
  similarity, each times 100. The overall score is the integer part of
  \<open>overall_score\<close>, the sum ((0 + required * 0.4) + preferred * 0.2) + content * 0.4 in
  double arithmetic, every product and partial sum rounded. That sum lies within
  \<open>1 / 2 ^ 44\<close> of the exact 0.4 * required + 0.2 * preferred + 0.4 * content, so the
  overall score is an integer between 0 and 100 that lies between the floors of the exact
  sum minus and plus \<open>1 / 2 ^ 44\<close>. The function is a function of its arguments alone:
  the sum is computed from the three scores of this call.
\<close>

theorem overall_score_truncated_double_sum:
  assumes "tfidf_cosine lib (clean_text lib resume_text) (clean_text lib job_description) = Inr c"
    and "0 \<le> c" and "c \<le> 1"
  shows "\<exists>overall r p s overall_score.
           compute_match_score lib resume_text job_description
             = Inr (overall, [(''required_skills'', r), (''preferred_skills'', p), (''content_similarity'', s)])
           \<and> r = fmul (round_double (skill_overlap (set (extract_skills lib resume_text))
                       (set (required_skills (analyze_requirements lib job_description))))) 100
           \<and> p = fmul (round_double (skill_overlap (set (extract_skills lib resume_text))
                       (set (preferred_skills (analyze_requirements lib job_description))))) 100
           \<and> s = fmul c 100
           \<and> overall_score = fadd (fadd (fadd 0 (fmul r (round_double (2 / 5))))
                                   (fmul p (round_double (1 / 5))))
                               (fmul s (round_double (2 / 5)))
           \<and> overall = \<lfloor>overall_score\<rfloor>
           \<and> \<bar>overall_score - (2 / 5 * r + 1 / 5 * p + 2 / 5 * s)\<bar> \<le> 1 / 2 ^ 44
           \<and> \<lfloor>2 / 5 * r + 1 / 5 * p + 2 / 5 * s - 1 / 2 ^ 44\<rfloor> \<le> overall
           \<and> overall \<le> \<lfloor>2 / 5 * r + 1 / 5 * p + 2 / 5 * s + 1 / 2 ^ 44\<rfloor>
           \<and> 0 \<le> r \<and> r \<le> 100 \<and> 0 \<le> p \<and> p \<le> 100 \<and> 0 \<le> s \<and> s \<le> 100
           \<and> 0 \<le> overall \<and> overall \<le> 100"
proof -
  define r where "r = fmul (round_double (skill_overlap (set (extract_skills lib resume_text))
                       (set (required_skills (analyze_requirements lib job_description))))) 100"
  define p where "p = fmul (round_double (skill_overlap (set (extract_skills lib resume_text))
                       (set (preferred_skills (analyze_requirements lib job_description))))) 100"
  define s where "s = fmul c 100"
  define overall_score where "overall_score = fadd (fadd (fadd 0 (fmul r (round_double (2 / 5))))
                                   (fmul p (round_double (1 / 5))))
                               (fmul s (round_double (2 / 5)))"
  define exact where "exact = 2 / 5 * r + 1 / 5 * p + 2 / 5 * s"
  have ro: "0 \<le> round_double (skill_overlap (set (extract_skills lib resume_text))
                       (set (required_skills (analyze_requirements lib job_description))))
            \<and> round_double (skill_overlap (set (extract_skills lib resume_text))
                       (set (required_skills (analyze_requirements lib job_description)))) \<le> 1"
    using skill_overlap_bounds [of "set (required_skills (analyze_requirements lib job_description))"
            "set (extract_skills lib resume_text)"]
    by (intro round_double_unit) simp_all
  have po: "0 \<le> round_double (skill_overlap (set (extract_skills lib resume_text))
                       (set (preferred_skills (analyze_requirements lib job_description))))
            \<and> round_double (skill_overlap (set (extract_skills lib resume_text))
                       (set (preferred_skills (analyze_requirements lib job_description)))) \<le> 1"
    using skill_overlap_bounds [of "set (preferred_skills (analyze_requirements lib job_description))"
            "set (extract_skills lib resume_text)"]
    by (intro round_double_unit) simp_all
  have rb: "0 \<le> r \<and> r \<le> 100" unfolding r_def using ro by (intro fmul_100_bounds) simp_all
  have pb: "0 \<le> p \<and> p \<le> 100" unfolding p_def using po by (intro fmul_100_bounds) simp_all
  have sb: "0 \<le> s \<and> s \<le> 100" unfolding s_def using assms(2,3) by (intro fmul_100_bounds)
  have tb: "0 \<le> overall_score" "overall_score \<le> 100"
    and cl: "\<bar>overall_score - exact\<bar> \<le> 1 / 2 ^ 44"
    unfolding overall_score_def exact_def
    using float_weighted_sum_close [of r p s] rb pb sb by simp_all
  have fl: "int_of_float overall_score = \<lfloor>overall_score\<rfloor>" using tb by (simp add: int_of_float_def)
  have ob: "0 \<le> \<lfloor>overall_score\<rfloor> \<and> \<lfloor>overall_score\<rfloor> \<le> 100"
    using tb by (simp add: le_floor_iff floor_le_iff)
  have "exact - 1 / 2 ^ 44 \<le> overall_score" "overall_score \<le> exact + 1 / 2 ^ 44"
    using cl by linarith+
  then have lo: "\<lfloor>exact - 1 / 2 ^ 44\<rfloor> \<le> \<lfloor>overall_score\<rfloor>"
    and hi: "\<lfloor>overall_score\<rfloor> \<le> \<lfloor>exact + 1 / 2 ^ 44\<rfloor>"
    by (simp_all only: floor_mono)
  have eq: "compute_match_score lib resume_text job_description
              = Inr (\<lfloor>overall_score\<rfloor>, [(''required_skills'', r), (''preferred_skills'', p), (''content_similarity'', s)])"
    using fl by (simp add: compute_match_score_eq assms(1) Let_def r_def p_def s_def overall_score_def)
  show ?thesis
    using eq rb pb sb ob cl lo hi
    unfolding exact_def r_def p_def s_def overall_score_def
    by blast
qed


lemma example_similarity:
  "tfidf_cosine example_libraries (clean_text example_libraries ''python aws'')
     (clean_text example_libraries ''python sql required'') = Inr (1 / 2)"
  by code_simp

lemma example_score:
  "compute_match_score example_libraries ''python aws'' ''python sql required''
     = Inr (53, [(''required_skills'', 2345624805922133 / 70368744177664), (''preferred_skills'', 100),
                 (''content_similarity'', 50)])"
  by code_simp

theorem overall_score_truncated_double_sum_witness:
  "tfidf_cosine example_libraries (clean_text example_libraries ''python aws'')
     (clean_text example_libraries ''python sql required'') = Inr (1 / 2)
   \<and> (0::rat) \<le> 1 / 2 \<and> (1 / 2 :: rat) \<le> 1
   \<and> compute_match_score example_libraries ''python aws'' ''python sql required''
     = Inr (53, [(''required_skills'', 2345624805922133 / 70368744177664), (''preferred_skills'', 100),
                 (''content_similarity'', 50)])
   \<and> \<lfloor>2 / 5 * (2345624805922133 / 70368744177664) + 1 / 5 * 100 + 2 / 5 * 50 - 1 / 2 ^ 44 :: rat\<rfloor> \<le> 53
   \<and> 53 \<le> \<lfloor>2 / 5 * (2345624805922133 / 70368744177664) + 1 / 5 * 100 + 2 / 5 * 50 + 1 / 2 ^ 44 :: rat\<rfloor>"
proof -
  have h2: "(0::rat) \<le> 1 / 2" and h3: "(1 / 2 :: rat) \<le> 1" by simp_all
  obtain overall r p s where
    e: "compute_match_score example_libraries ''python aws'' ''python sql required''
          = Inr (overall, [(''required_skills'', r), (''preferred_skills'', p), (''content_similarity'', s)])"
    and lo: "\<lfloor>2 / 5 * r + 1 / 5 * p + 2 / 5 * s - 1 / 2 ^ 44\<rfloor> \<le> overall"
    and hi: "overall \<le> \<lfloor>2 / 5 * r + 1 / 5 * p + 2 / 5 * s + 1 / 2 ^ 44\<rfloor>"
    using overall_score_truncated_double_sum [OF example_similarity h2 h3] by blast
  from e example_score have v: "overall = 53" "r = 2345624805922133 / 70368744177664" "p = 100" "s = 50"
    by simp_all
  show ?thesis
    using example_similarity h2 h3 example_score lo hi unfolding v by blast
qed

text \<open>
  C7, as stated, fails: for an empty resume and an empty job description the required and
  the preferred skill sets are empty, and the call raises the vectoriser's exception
  instead of yielding the scores 100.
\<close>

theorem empty_requirements_vectoriser_raises:
  "required_skills (analyze_requirements example_libraries []) = []
   \<and> preferred_skills (analyze_requirements example_libraries []) = []
   \<and> compute_match_score example_libraries [] [] = Inl ValueError"
  by code_simp

text \<open>
  C7, amended. When the required (respectively preferred) skill list of the analysed job
  description is empty, the match ratio is 1.0 and no division takes place, so the empty
  set raises no \<^verbatim>\<open>ZeroDivisionError\<close>. Whenever the vectoriser returns, the required
  (respectively preferred) category score of the result is exactly 100.0; when the
  vectoriser raises, \<^verbatim>\<open>compute_match_score\<close> raises that exception.
\<close>

theorem empty_skill_set_scores_100:
  "(required_skills (analyze_requirements lib job_description) = [] \<longrightarrow>
      match_ratio (py_set (extract_skills lib resume_text))
        (py_set (required_skills (analyze_requirements lib job_description))) = Inr 1
      \<and> (case tfidf_cosine lib (clean_text lib resume_text) (clean_text lib job_description) of
           Inl e \<Rightarrow> compute_match_score lib resume_text job_description = Inl e
         | Inr c \<Rightarrow> \<exists>overall p. compute_match_score lib resume_text job_description
                       = Inr (overall, [(''required_skills'', 100), (''preferred_skills'', p),
                                        (''content_similarity'', fmul c 100)])))
   \<and> (preferred_skills (analyze_requirements lib job_description) = [] \<longrightarrow>
      match_ratio (py_set (extract_skills lib resume_text))
        (py_set (preferred_skills (analyze_requirements lib job_description))) = Inr 1
      \<and> (case tfidf_cosine lib (clean_text lib resume_text) (clean_text lib job_description) of
           Inl e \<Rightarrow> compute_match_score lib resume_text job_description = Inl e
         | Inr c \<Rightarrow> \<exists>overall r. compute_match_score lib resume_text job_description
                       = Inr (overall, [(''required_skills'', r), (''preferred_skills'', 100),
                                        (''content_similarity'', fmul c 100)])))"
proof -
  have h: "fmul (round_double 1) 100 = 100" by code_simp
  show ?thesis
    by (simp add: compute_match_score_eq skill_overlap_def match_ratio_def py_set_def Let_def h
          split: sum.split)
qed

lemma example_no_requirements:
  "required_skills (analyze_requirements example_libraries ''We build tools'') = []"
  "preferred_skills (analyze_requirements example_libraries ''We build tools'') = []"
  by code_simp+

lemma example_score_no_requirements:
  "compute_match_score example_libraries ''Python'' ''We build tools''
     = Inr (80, [(''required_skills'', 100), (''preferred_skills'', 100), (''content_similarity'', 50)])"
  by code_simp

theorem empty_skill_set_scores_100_witness:
  "required_skills (analyze_requirements example_libraries ''We build tools'') = []
   \<and> preferred_skills (analyze_requirements example_libraries ''We build tools'') = []
   \<and> match_ratio (py_set (extract_skills example_libraries ''Python''))
        (py_set (required_skills (analyze_requirements example_libraries ''We build tools''))) = Inr 1
   \<and> match_ratio (py_set (extract_skills example_libraries ''Python''))
        (py_set (preferred_skills (analyze_requirements example_libraries ''We build tools''))) = Inr 1
   \<and> compute_match_score example_libraries ''Python'' ''We build tools''
     = Inr (80, [(''required_skills'', 100), (''preferred_skills'', 100), (''content_similarity'', 50)])"
  using empty_skill_set_scores_100 [of example_libraries "''We build tools''" "''Python''"]
        example_no_requirements example_score_no_requirements
  by simp

section \<open>The matcher: missing requirements\<close>

lemma lower_char_idem: "lower_char (lower_char c) = lower_char c"
  by (simp add: lower_char_def ascii_uppercase_def ascii_lowercase_def)

lemma str_lower_idem: "str_lower (str_lower s) = str_lower s"
  by (simp add: str_lower_def lower_char_idem)

lemma extract_skills_lower: "s \<in> set (extract_skills lib text) \<Longrightarrow> str_lower s = s"
  by (auto simp: extract_skills_def skill_patterns_def Let_def set_fold_set_add str_lower_idem)

lemma analyze_sents_lower:
  assumes "\<forall>s \<in> set (required_skills reqs) \<union> set (preferred_skills reqs). str_lower s = s"
  shows "\<forall>s \<in> set (required_skills (analyze_sents lib ss reqs))
               \<union> set (preferred_skills (analyze_sents lib ss reqs)). str_lower s = s"
  using assms
proof (induction ss arbitrary: reqs)
  case Nil
  then show ?case by simp
next
  case (Cons sent rest)
  show ?case
    unfolding analyze_sents.simps
    by (rule Cons.IH) (use Cons.prems in \<open>auto simp: Let_def dest: extract_skills_lower\<close>)
qed

lemma analyze_requirements_lower:
  "s \<in> set (required_skills (analyze_requirements lib jd)) \<union> set (preferred_skills (analyze_requirements lib jd))
     \<Longrightarrow> str_lower s = s"
  using analyze_sents_lower [of "\<lparr>required_skills = [], preferred_skills = [], experience = [], education = []\<rparr>" lib "sents lib jd"]
  by (simp add: analyze_requirements_def)

lemma absent_iff:
  assumes "str_lower skill = skill" and "\<forall>r \<in> set skills. str_lower r = r"
  shows "skill \<notin> set skills \<longleftrightarrow> list_all (\<lambda>r. str_lower skill \<noteq> str_lower r) skills"
  using assms by (auto simp: list_all_iff)

lemma count_list_filter: "count_list (filter P xs) x = (if P x then count_list xs x else 0)"
  by (induction xs) auto

text \<open>
  C8. \<^verbatim>\<open>get_missing_requirements\<close> returns, under the keys required and preferred, the
  required and preferred lists of the requirement breakdown with exactly those elements
  removed that equal, after lower-casing, some lower-cased element of
  \<^verbatim>\<open>extract_skills(resume_text)\<close>. So no returned skill is present case-insensitively in
  the resume skills, each returned list is a subsequence of the breakdown's list (order
  kept), and an absent skill occurs as many times as in the breakdown (duplicates kept).
\<close>

theorem missing_requirements_absent_in_order:
  "let skills = extract_skills lib resume_text;
       reqs = analyze_requirements lib job_description;
       absent = (\<lambda>skill. list_all (\<lambda>r. str_lower skill \<noteq> str_lower r) skills);
       required = filter absent (required_skills reqs);
       preferred = filter absent (preferred_skills reqs)
   in get_missing_requirements lib resume_text job_description
        = [(''required'', required), (''preferred'', preferred)]
      \<and> (\<forall>skill \<in> set required \<union> set preferred. \<forall>r \<in> set skills. str_lower skill \<noteq> str_lower r)
      \<and> subseq required (required_skills reqs)
      \<and> subseq preferred (preferred_skills reqs)
      \<and> (\<forall>skill. absent skill \<longrightarrow>
            count_list required skill = count_list (required_skills reqs) skill
            \<and> count_list preferred skill = count_list (preferred_skills reqs) skill)"
proof -
  define skills where "skills = extract_skills lib resume_text"
  define reqs where "reqs = analyze_requirements lib job_description"
  define absent where "absent = (\<lambda>skill. list_all (\<lambda>r. str_lower skill \<noteq> str_lower r) skills)"
  have low: "\<forall>r \<in> set skills. str_lower r = r"
    by (simp add: skills_def extract_skills_lower)
  have fr: "filter (\<lambda>skill. skill \<notin> set skills) (required_skills reqs) = filter absent (required_skills reqs)"
  proof (rule filter_cong [OF refl])
    fix s assume "s \<in> set (required_skills reqs)"
    then have "str_lower s = s" using analyze_requirements_lower [of s lib job_description] by (simp add: reqs_def)
    then show "(s \<notin> set skills) = absent s" unfolding absent_def using low by (rule absent_iff)
  qed
  have fp: "filter (\<lambda>skill. skill \<notin> set skills) (preferred_skills reqs) = filter absent (preferred_skills reqs)"
  proof (rule filter_cong [OF refl])
    fix s assume "s \<in> set (preferred_skills reqs)"
    then have "str_lower s = s" using analyze_requirements_lower [of s lib job_description] by (simp add: reqs_def)
    then show "(s \<notin> set skills) = absent s" unfolding absent_def using low by (rule absent_iff)
  qed
  have eq: "get_missing_requirements lib resume_text job_description
              = [(''required'', filter absent (required_skills reqs)),
                 (''preferred'', filter absent (preferred_skills reqs))]"
    using fr fp by (simp add: get_missing_requirements_def Let_def set_py_set skills_def reqs_def)
  have ab: "\<forall>skill \<in> set (filter absent (required_skills reqs)) \<union> set (filter absent (preferred_skills reqs)).
              \<forall>r \<in> set skills. str_lower skill \<noteq> str_lower r"
    by (auto simp: absent_def list_all_iff)
  have all: "get_missing_requirements lib resume_text job_description
               = [(''required'', filter absent (required_skills reqs)),
                  (''preferred'', filter absent (preferred_skills reqs))]
      \<and> (\<forall>skill \<in> set (filter absent (required_skills reqs)) \<union> set (filter absent (preferred_skills reqs)).
            \<forall>r \<in> set skills. str_lower skill \<noteq> str_lower r)
      \<and> subseq (filter absent (required_skills reqs)) (required_skills reqs)
      \<and> subseq (filter absent (preferred_skills reqs)) (preferred_skills reqs)
      \<and> (\<forall>skill. absent skill \<longrightarrow>
            count_list (filter absent (required_skills reqs)) skill = count_list (required_skills reqs) skill
            \<and> count_list (filter absent (preferred_skills reqs)) skill = count_list (preferred_skills reqs) skill)"
    using eq ab by (simp add: count_list_filter)
  then show ?thesis
    unfolding Let_def absent_def skills_def reqs_def .
qed

lemma example_missing:
  "get_missing_requirements example_libraries ''docker'' ''sql required. sql essential. docker a plus''
     = [(''required'', [''sql'', ''required'', ''sql'', ''essential'']), (''preferred'', [''plus''])]"
  by code_simp

lemma example_requirements:
  "required_skills (analyze_requirements example_libraries ''sql required. sql essential. docker a plus'')
     = [''sql'', ''required'', ''sql'', ''essential'']"
  "preferred_skills (analyze_requirements example_libraries ''sql required. sql essential. docker a plus'')
     = [''docker'', ''plus'']"
  "extract_skills example_libraries ''docker'' = [''docker'']"
  by code_simp+

theorem missing_requirements_absent_in_order_witness:
  "get_missing_requirements example_libraries ''docker'' ''sql required. sql essential. docker a plus''
     = [(''required'', [''sql'', ''required'', ''sql'', ''essential'']), (''preferred'', [''plus''])]
   \<and> subseq [''sql'', ''required'', ''sql'', ''essential'']
        (required_skills (analyze_requirements example_libraries ''sql required. sql essential. docker a plus''))
   \<and> subseq [''plus'']
        (preferred_skills (analyze_requirements example_libraries ''sql required. sql essential. docker a plus''))
   \<and> ''docker'' \<in> set (extract_skills example_libraries ''docker'')
   \<and> str_lower ''sql'' \<noteq> str_lower ''docker''"
proof -
  note t = missing_requirements_absent_in_order
             [of example_libraries "''docker''" "''sql required. sql essential. docker a plus''",
              unfolded Let_def example_requirements]
  have f1: "filter (\<lambda>skill. list_all (\<lambda>r. str_lower skill \<noteq> str_lower r) [''docker''])
              [''sql'', ''required'', ''sql'', ''essential''] = [''sql'', ''required'', ''sql'', ''essential'']"
    by code_simp
  have f2: "filter (\<lambda>skill. list_all (\<lambda>r. str_lower skill \<noteq> str_lower r) [''docker''])
              [''docker'', ''plus''] = [''plus'']"
    by code_simp
  have c1: "get_missing_requirements example_libraries ''docker'' ''sql required. sql essential. docker a plus''
     = [(''required'', [''sql'', ''required'', ''sql'', ''essential'']), (''preferred'', [''plus''])]"
    using t unfolding f1 f2 by (rule conjunct1)
  have c2: "subseq [''sql'', ''required'', ''sql'', ''essential'']
        (required_skills (analyze_requirements example_libraries ''sql required. sql essential. docker a plus''))"
    using t unfolding f1 f2 example_requirements by blast
  have c3: "subseq [''plus'']
        (preferred_skills (analyze_requirements example_libraries ''sql required. sql essential. docker a plus''))"
    using t unfolding f1 f2 example_requirements by blast
  have c4: "''docker'' \<in> set (extract_skills example_libraries ''docker'')"
    unfolding example_requirements by simp
  have c5: "str_lower ''sql'' \<noteq> str_lower ''docker''" by code_simp
  show ?thesis using c1 c2 c3 c4 c5 by blast
qed

section \<open>The matcher: text cleaning\<close>

lemma lower_char_not_upper: "lower_char c \<notin> set ascii_uppercase"
  by (simp add: lower_char_def ascii_uppercase_def ascii_lowercase_def)

lemma str_isupper_lower: "\<not> str_isupper (str_lower s)"
  by (simp add: str_isupper_def str_lower_def list_ex_iff lower_char_not_upper)

text \<open>
  C9. \<^verbatim>\<open>clean_text\<close> lower-cases the text before it tokenises, so no token it tests is
  all-uppercase (\<open>str_isupper_lower\<close>) and the acronym branch is never taken: the acronym
  AWS reaches the lemmatiser as aws and is not preserved verbatim. A token with a hyphen
  is kept as it is.
\<close>

theorem acronym_lowercased_and_lemmatized:
  "clean_text example_libraries ''AWS Lambdas with state-of-the-art C++'' = ''aw lambda state-of-the-art''
   \<and> str_isupper ''AWS''
   \<and> lemmatize example_libraries ''aws'' = ''aw''"
  by code_simp

section \<open>The tone adapter: analysis\<close>

lemma add_markers_eq:
  "add_markers step ms t score = score + step * int (count_found ms t)"
  by (induction ms arbitrary: score) (simp_all add: count_found_def algebra_simps)

lemma tone_score_eq:
  assumes "words chars \<noteq> [] \<or> phrases chars \<noteq> []"
  shows "tone_score chars t = Inr (normalized_score chars t)"
proof -
  have "0 < length (words chars) + length (phrases chars)" using assms by auto
  then have nz: "int (length (words chars)) + int (length (phrases chars)) \<noteq> 0" by linarith
  have d: "(of_int (int (length (words chars)) + int (length (phrases chars))) :: rat)
             = of_nat (length (words chars) + length (phrases chars))"
    by simp
  show ?thesis
    unfolding tone_score_def normalized_score_def truediv_def add_markers_eq Let_def
    using nz by (simp only: if_False d) simp
qed

lemma tone_scores_eq:
  assumes "\<forall>entry \<in> set catalog. words (snd entry) \<noteq> [] \<or> phrases (snd entry) \<noteq> []"
  shows "tone_scores catalog t = Inr (map (\<lambda>entry. (fst entry, normalized_score (snd entry) t)) catalog)"
  using assms
proof (induction catalog)
  case Nil
  then show ?case by simp
next
  case (Cons entry rest)
  obtain tone chars where e: "entry = (tone, chars)" by (cases entry)
  with Cons show ?case by (simp add: tone_score_eq)
qed

lemma max_from_first_max:
  "\<exists>ys zs. b # xs = ys @ max_from k b xs # zs
      \<and> (\<forall>y \<in> set ys. k y < k (max_from k b xs))
      \<and> (\<forall>z \<in> set zs. k z \<le> k (max_from k b xs))"
proof (induction xs arbitrary: b)
  case Nil
  show ?case by (intro exI [of _ "[]"]) simp
next
  case (Cons x xs)
  show ?case
  proof (cases "k b < k x")
    case True
    define m where "m = max_from k x xs"
    have mb: "max_from k b (x # xs) = m" using True by (simp add: m_def)
    obtain ys zs where s: "x # xs = ys @ m # zs"
      and l: "\<forall>y \<in> set ys. k y < k m"
      and r: "\<forall>z \<in> set zs. k z \<le> k m"
      using Cons.IH [of x] unfolding m_def by blast
    have "x \<in> set ys \<or> x = m" using s by (cases ys) auto
    then have "k x \<le> k m" using l by auto
    then have "k b < k m" using True by simp
    then have l': "\<forall>y \<in> set (b # ys). k y < k m" using l by simp
    have s': "b # x # xs = (b # ys) @ m # zs" by (simp add: s)
    show ?thesis unfolding mb using s' l' r by blast
  next
    case False
    define m where "m = max_from k b xs"
    have mb: "max_from k b (x # xs) = m" using False by (simp add: m_def)
    obtain ys zs where s: "b # xs = ys @ m # zs"
      and l: "\<forall>y \<in> set ys. k y < k m"
      and r: "\<forall>z \<in> set zs. k z \<le> k m"
      using Cons.IH [of b] unfolding m_def by blast
    show ?thesis
    proof (cases ys)
      case Nil
      with s have e: "b = m" and z: "xs = zs" by auto
      have s': "b # x # xs = [] @ m # (x # zs)" using e z by simp
      have "k x \<le> k m" using False e by simp
      then have r': "\<forall>z \<in> set (x # zs). k z \<le> k m" using r by simp
      have l': "\<forall>y \<in> set []. k y < k m" by simp
      show ?thesis unfolding mb using s' l' r' by blast
    next
      case (Cons y ys')
      with s have y: "y = b" and t: "xs = ys' @ m # zs" by auto
      have "k b < k m" using l Cons y by simp
      then have "k x < k m" using False by simp
      then have l': "\<forall>y \<in> set (b # x # ys'). k y < k m" using l Cons y by simp
      have s': "b # x # xs = (b # x # ys') @ m # zs" using t by simp
      show ?thesis unfolding mb using s' l' r by blast
    qed
  qed
qed

lemma py_max_first_max:
  assumes "xs \<noteq> []"
  shows "\<exists>ys m zs. py_max k xs = Inr m \<and> xs = ys @ m # zs
      \<and> (\<forall>y \<in> set ys. k y < k m) \<and> (\<forall>z \<in> set zs. k z \<le> k m)"
proof -
  obtain b rest where x: "xs = b # rest" using assms by (cases xs) auto
  show ?thesis
    using max_from_first_max [of b rest k] by (simp add: x py_max_def)
qed

lemma catalog_markers:
  "\<forall>entry \<in> set TONE_CHARACTERISTICS. words (snd entry) \<noteq> [] \<or> phrases (snd entry) \<noteq> []"
  by (simp add: TONE_CHARACTERISTICS_def)

lemma catalog_nonempty: "TONE_CHARACTERISTICS \<noteq> []"
  by (simp add: TONE_CHARACTERISTICS_def)

lemma example_negative_confidence:
  "analyze_tone ''hey thus maybe but'' = Inr (''Formal'', - (1 / 13))"
  by code_simp

text \<open>
  C4. For every text, \<^verbatim>\<open>analyze_tone\<close> returns a catalog tone whose normalised score
  (preferred words found, plus twice the preferred phrases found, minus the avoid-words
  found, over the number of words and phrases) is strictly greater than the score of every
  tone before it in the catalog and at least the score of every tone after it: the first
  maximum. The confidence is the minimum of 1 and that score. Nothing bounds it from
  below: on the text of the last conjunct it is -1/13.
\<close>

theorem analyze_tone_first_maximum:
  "(\<exists>before tone chars after.
      TONE_CHARACTERISTICS = before @ (tone, chars) # after
      \<and> analyze_tone text = Inr (tone, min 1 (normalized_score chars (str_lower text)))
      \<and> (\<forall>entry \<in> set before.
            normalized_score (snd entry) (str_lower text) < normalized_score chars (str_lower text))
      \<and> (\<forall>entry \<in> set after.
            normalized_score (snd entry) (str_lower text) \<le> normalized_score chars (str_lower text)))
   \<and> analyze_tone ''hey thus maybe but'' = Inr (''Formal'', - (1 / 13))
   \<and> - (1 / 13) < (0::rat)"
proof -
  define t where "t = str_lower text"
  define f where "f = (\<lambda>entry :: string \<times> tone_characteristics. (fst entry, normalized_score (snd entry) t))"
  have sc: "tone_scores TONE_CHARACTERISTICS t = Inr (map f TONE_CHARACTERISTICS)"
    unfolding f_def using catalog_markers by (rule tone_scores_eq)
  have ne: "map f TONE_CHARACTERISTICS \<noteq> []" using catalog_nonempty by simp
  obtain ys m zs where pm: "py_max snd (map f TONE_CHARACTERISTICS) = Inr m"
    and sp: "map f TONE_CHARACTERISTICS = ys @ m # zs"
    and l: "\<forall>y \<in> set ys. snd y < snd m"
    and r: "\<forall>z \<in> set zs. snd z \<le> snd m"
    using py_max_first_max [OF ne, of snd] by blast
  obtain before rest where c1: "TONE_CHARACTERISTICS = before @ rest"
    and yb: "ys = map f before" and mr: "m # zs = map f rest"
    using sp by (auto simp: map_eq_append_conv)
  obtain entry after where c2: "rest = entry # after" and me: "m = f entry" and za: "zs = map f after"
    using mr by (auto simp: Cons_eq_map_conv)
  obtain tone chars where e: "entry = (tone, chars)" by (cases entry)
  have m: "m = (tone, normalized_score chars t)" by (simp add: me e f_def)
  have a: "analyze_tone text = Inr (tone, min 1 (normalized_score chars t))"
    by (simp add: analyze_tone_def Let_def t_def [symmetric] sc pm m)
  have lb: "\<forall>entry \<in> set before. normalized_score (snd entry) t < normalized_score chars t"
    using l by (simp add: yb m f_def)
  have ra: "\<forall>entry \<in> set after. normalized_score (snd entry) t \<le> normalized_score chars t"
    using r by (simp add: za m f_def)
  have "TONE_CHARACTERISTICS = before @ (tone, chars) # after" by (simp add: c1 c2 e)
  with a lb ra have "\<exists>before tone chars after.
      TONE_CHARACTERISTICS = before @ (tone, chars) # after
      \<and> analyze_tone text = Inr (tone, min 1 (normalized_score chars t))
      \<and> (\<forall>entry \<in> set before. normalized_score (snd entry) t < normalized_score chars t)
      \<and> (\<forall>entry \<in> set after. normalized_score (snd entry) t \<le> normalized_score chars t)"
    by blast
  then show ?thesis
    unfolding t_def using example_negative_confidence by simp
qed

lemma example_tie:
  "analyze_tone ''Essential'' = Inr (''Persuasive'', 1 / 13)"
  by code_simp

theorem analyze_tone_first_maximum_witness:
  "analyze_tone ''Essential'' = Inr (''Persuasive'', 1 / 13)
   \<and> (\<exists>before chars after.
         TONE_CHARACTERISTICS = before @ (''Persuasive'', chars) # after
         \<and> min 1 (normalized_score chars (str_lower ''Essential'')) = 1 / 13)"
proof -
  obtain before tone chars after where
    c: "TONE_CHARACTERISTICS = before @ (tone, chars) # after"
    and a: "analyze_tone ''Essential'' = Inr (tone, min 1 (normalized_score chars (str_lower ''Essential'')))"
    using analyze_tone_first_maximum [of "''Essential''"] by blast
  from a example_tie have "tone = ''Persuasive''"
    and "min 1 (normalized_score chars (str_lower ''Essential'')) = 1 / 13"
    by simp_all
  with c example_tie show ?thesis by blast
qed

section \<open>The tone adapter: normalisation\<close>

lemma lower_upper_char: "lower_char (upper_char c) = lower_char c"
  by (simp add: lower_char_def upper_char_def ascii_uppercase_def ascii_lowercase_def)

lemma is_space_lower_char: "is_space (lower_char c) = is_space c"
  by (simp add: lower_char_def is_space_def ascii_uppercase_def ascii_lowercase_def)

lemma str_lower_capitalize: "str_lower (str_capitalize s) = str_lower s"
  by (cases s) (simp_all add: str_capitalize_def str_lower_def lower_upper_char lower_char_idem)

lemma dropWhile_space_lower:
  "dropWhile is_space (map lower_char s) = map lower_char (dropWhile is_space s)"
  by (induction s) (simp_all add: is_space_lower_char)

lemma str_lower_strip: "str_lower (str_strip s) = str_strip (str_lower s)"
  by (simp add: str_lower_def str_strip_def rev_map dropWhile_space_lower)

lemma sublist_dropWhile:
  assumes "p \<noteq> []" and "\<not> P (hd p)"
  shows "sublist p (dropWhile P xs) \<longleftrightarrow> sublist p xs"
proof (induction xs)
  case Nil
  show ?case by simp
next
  case (Cons x xs)
  show ?case
  proof (cases "P x")
    case True
    have "\<not> prefix p (x # xs)"
    proof
      assume "prefix p (x # xs)"
      then have "hd p = x" using assms(1) by (cases p) auto
      with True assms(2) show False by simp
    qed
    then have "sublist p (x # xs) \<longleftrightarrow> sublist p xs" by (simp add: sublist_Cons_right)
    with True Cons.IH show ?thesis by simp
  next
    case False
    then show ?thesis by simp
  qed
qed

lemma str_in_strip:
  assumes "p \<noteq> []" and "\<not> is_space (hd p)" and "\<not> is_space (last p)"
  shows "str_in p (str_strip s) \<longleftrightarrow> str_in p s"
proof -
  have r: "rev p \<noteq> []" "\<not> is_space (hd (rev p))" using assms by (simp_all add: hd_rev)
  have "sublist p (rev (dropWhile is_space (rev (dropWhile is_space s))))
          \<longleftrightarrow> sublist (rev p) (dropWhile is_space (rev (dropWhile is_space s)))"
    by (metis sublist_rev rev_rev_ident)
  also have "\<dots> \<longleftrightarrow> sublist (rev p) (rev (dropWhile is_space s))"
    using r by (rule sublist_dropWhile)
  also have "\<dots> \<longleftrightarrow> sublist p (dropWhile is_space s)" by simp
  also have "\<dots> \<longleftrightarrow> sublist p s" using assms(1,2) by (rule sublist_dropWhile)
  finally show ?thesis by (simp add: str_in_def str_strip_def)
qed

lemma tone_name_in_cleaned:
  assumes "valid_tone \<in> set TONE_OPTIONS"
  shows "str_in (str_lower valid_tone) (str_lower (str_capitalize (str_strip tone)))
           \<longleftrightarrow> str_in (str_lower valid_tone) (str_lower tone)"
proof -
  have p: "str_lower valid_tone \<noteq> [] \<and> \<not> is_space (hd (str_lower valid_tone))
            \<and> \<not> is_space (last (str_lower valid_tone))"
    using assms
    by (auto simp: TONE_OPTIONS_def str_lower_def lower_char_def is_space_def
          ascii_uppercase_def ascii_lowercase_def)
  show ?thesis
    using p by (simp add: str_lower_capitalize str_lower_strip str_in_strip)
qed

lemma find_in_set: "find P xs = Some x \<Longrightarrow> x \<in> set xs"
  by (induction xs) (auto split: if_splits)

text \<open>
  C3. \<^verbatim>\<open>normalize_tone\<close> always returns a tone of the catalog. When the stripped and
  capitalised input is a catalog tone, that tone is returned. Otherwise the result is the
  first tone, in catalog order, whose lower-cased name occurs in the lower-cased input
  (the raw input: stripping and capitalising do not change which names occur), and Formal
  when no name occurs.
\<close>

theorem normalize_tone_catalog_member:
  "normalize_tone tone \<in> set TONE_OPTIONS
   \<and> (str_capitalize (str_strip tone) \<in> set TONE_OPTIONS \<longrightarrow>
        normalize_tone tone = str_capitalize (str_strip tone))
   \<and> (str_capitalize (str_strip tone) \<notin> set TONE_OPTIONS \<longrightarrow>
        normalize_tone tone
          = (case find (\<lambda>valid_tone. str_in (str_lower valid_tone) (str_lower tone)) TONE_OPTIONS of
               Some valid_tone \<Rightarrow> valid_tone
             | None \<Rightarrow> ''Formal''))"
proof -
  define found where
    "found = find (\<lambda>valid_tone. str_in (str_lower valid_tone) (str_lower tone)) TONE_OPTIONS"
  have f: "find (\<lambda>valid_tone. str_in (str_lower valid_tone) (str_lower (str_capitalize (str_strip tone))))
             TONE_OPTIONS = found"
    unfolding found_def by (rule find_cong [OF refl]) (rule tone_name_in_cleaned)
  have formal: "''Formal'' \<in> set TONE_OPTIONS" by (simp add: TONE_OPTIONS_def)
  have fm: "(case found of Some valid_tone \<Rightarrow> valid_tone | None \<Rightarrow> ''Formal'') \<in> set TONE_OPTIONS"
    using formal by (auto simp: found_def split: option.split dest: find_in_set)
  have empty: "tone = [] \<Longrightarrow> found = None"
    by (simp add: found_def TONE_OPTIONS_def str_in_def str_lower_def)
  have nonmember: "str_capitalize (str_strip tone) \<notin> set TONE_OPTIONS \<Longrightarrow>
        normalize_tone tone = (case found of Some valid_tone \<Rightarrow> valid_tone | None \<Rightarrow> ''Formal'')"
    using empty by (cases "tone = []") (simp_all add: normalize_tone_def Let_def f)
  have nonempty: "str_capitalize (str_strip tone) \<in> set TONE_OPTIONS \<Longrightarrow> tone \<noteq> []"
    by (auto simp: str_capitalize_def str_strip_def TONE_OPTIONS_def)
  have member: "str_capitalize (str_strip tone) \<in> set TONE_OPTIONS \<Longrightarrow>
        normalize_tone tone = str_capitalize (str_strip tone)"
    using nonempty by (simp add: normalize_tone_def Let_def)
  have "normalize_tone tone \<in> set TONE_OPTIONS"
    using member nonmember fm by (cases "str_capitalize (str_strip tone) \<in> set TONE_OPTIONS") simp_all
  then show ?thesis using member nonmember unfolding found_def by blast
qed

lemma example_exact_tone:
  "str_capitalize (str_strip ''  fRIENDLY '') = ''Friendly''"
  "''Friendly'' \<in> set TONE_OPTIONS"
  by code_simp+

lemma example_contained_tone:
  "str_capitalize (str_strip ''assertive but FRIENDLY'') \<notin> set TONE_OPTIONS"
  "find (\<lambda>valid_tone. str_in (str_lower valid_tone) (str_lower ''assertive but FRIENDLY'')) TONE_OPTIONS
     = Some ''Friendly''"
  by code_simp+

lemma example_unknown_tone:
  "str_capitalize (str_strip ''casual'') \<notin> set TONE_OPTIONS"
  "find (\<lambda>valid_tone. str_in (str_lower valid_tone) (str_lower ''casual'')) TONE_OPTIONS = None"
  by code_simp+

theorem normalize_tone_catalog_member_witness:
  "str_capitalize (str_strip ''  fRIENDLY '') \<in> set TONE_OPTIONS
   \<and> normalize_tone ''  fRIENDLY '' = ''Friendly''
   \<and> str_capitalize (str_strip ''assertive but FRIENDLY'') \<notin> set TONE_OPTIONS
   \<and> normalize_tone ''assertive but FRIENDLY'' = ''Friendly''
   \<and> str_capitalize (str_strip ''casual'') \<notin> set TONE_OPTIONS
   \<and> normalize_tone ''casual'' = ''Formal''"
proof -
  have a: "normalize_tone ''  fRIENDLY '' = ''Friendly''"
    using normalize_tone_catalog_member [of "''  fRIENDLY ''"] example_exact_tone by simp
  have b: "normalize_tone ''assertive but FRIENDLY'' = ''Friendly''"
    using normalize_tone_catalog_member [of "''assertive but FRIENDLY''"] example_contained_tone by simp
  have c: "normalize_tone ''casual'' = ''Formal''"
    using normalize_tone_catalog_member [of "''casual''"] example_unknown_tone by simp
  show ?thesis
    using a b c example_exact_tone example_contained_tone(1) example_unknown_tone(1) by simp
qed

end
